theory Spec2Isabelle
  imports Main
begin

section \<open>Values of the request payloads\<close>

text \<open>
  A request body is a JSON object, which the handlers read as a Python dict.  A JSON value
  is kept as the Python value it decodes to: \<open>JNull\<close> is \<open>None\<close>.  Numbers are the
  integers.  A dict is a map from keys to values.
\<close>

datatype json =
    JNull
  | JBool bool
  | JNum int
  | JStr string
  | JArr "json list"
  | JObj "(string \<times> json) list"

type_synonym dict = "string \<rightharpoonup> json"

text \<open>Python's truth value of an object, as \<open>not x\<close>, \<open>if x\<close> and \<open>all\<close> test it.\<close>

fun truthy :: "json \<Rightarrow> bool" where
  "truthy JNull = False"
| "truthy (JBool b) = b"
| "truthy (JNum n) = (n \<noteq> 0)"
| "truthy (JStr s) = (s \<noteq> [])"
| "truthy (JArr xs) = (xs \<noteq> [])"
| "truthy (JObj kvs) = (kvs \<noteq> [])"

text \<open>\<open>data.get(k)\<close> gives \<open>None\<close> for a missing key, \<open>data.get(k, d)\<close> gives \<open>d\<close>.\<close>

definition dict_get :: "dict \<Rightarrow> string \<Rightarrow> json" where
  "dict_get data k = (case data k of None \<Rightarrow> JNull | Some v \<Rightarrow> v)"

definition dict_get_default :: "dict \<Rightarrow> string \<Rightarrow> json \<Rightarrow> json" where
  "dict_get_default data k d = (case data k of None \<Rightarrow> d | Some v \<Rightarrow> v)"

datatype exn = ValueError | TypeError | StorageError

section \<open>Calendar dates\<close>

text \<open>
  \<open>datetime.date\<close>.  Which strings \<open>date.fromisoformat\<close> takes for a date depends on the
  Python that runs the service: up to 3.10 the extended format \<open>YYYY-MM-DD\<close> only, from
  3.11 on also the basic format and week dates.  The handlers therefore take the parser
  as the parameter \<open>parse\<close>: a string that it does not take raises \<open>ValueError\<close>.  An
  argument that is not a string raises \<open>TypeError\<close> in every version.
\<close>

record date =
  year :: nat
  month :: nat
  day :: nat

definition is_leap :: "nat \<Rightarrow> bool" where
  "is_leap y = (y mod 4 = 0 \<and> (y mod 100 \<noteq> 0 \<or> y mod 400 = 0))"

definition days_in_month :: "nat \<Rightarrow> nat \<Rightarrow> nat" where
  "days_in_month y m =
     (if m = 2 then (if is_leap y then 29 else 28)
      else if m = 4 \<or> m = 6 \<or> m = 9 \<or> m = 11 then 30 else 31)"

definition digit :: "char \<Rightarrow> nat option" where
  "digit c = (let n = (of_char c :: nat) in if 48 \<le> n \<and> n \<le> 57 then Some (n - 48) else None)"

fun digits :: "string \<Rightarrow> nat option \<Rightarrow> nat option" where
  "digits [] acc = acc"
| "digits (c # cs) acc =
     (case (acc, digit c) of
        (Some a, Some d) \<Rightarrow> digits cs (Some (10 * a + d))
      | _ \<Rightarrow> None)"

text \<open>One such parser, that of the extended format, on which the handlers can be evaluated.\<close>

definition fromisoformat_extended :: "string \<Rightarrow> exn + date" where
  "fromisoformat_extended s =
     (if length s = 10 \<and> s ! 4 = CHR ''-'' \<and> s ! 7 = CHR ''-'' then
        (case (digits (take 4 s) (Some 0), digits (take 2 (drop 5 s)) (Some 0),
               digits (drop 8 s) (Some 0)) of
           (Some y, Some m, Some d) \<Rightarrow>
             if 1 \<le> y \<and> 1 \<le> m \<and> m \<le> 12 \<and> 1 \<le> d \<and> d \<le> days_in_month y m
             then Inr \<lparr>year = y, month = m, day = d\<rparr>
             else Inl ValueError
         | _ \<Rightarrow> Inl ValueError)
      else Inl ValueError)"

definition fromisoformat_py :: "(string \<Rightarrow> exn + date) \<Rightarrow> json \<Rightarrow> exn + date" where
  "fromisoformat_py parse v = (case v of JStr s \<Rightarrow> parse s | _ \<Rightarrow> Inl TypeError)"

fun zfill :: "nat \<Rightarrow> nat \<Rightarrow> string" where
  "zfill 0 n = []"
| "zfill (Suc w) n = zfill w (n div 10) @ [char_of (48 + n mod 10)]"

definition isoformat :: "date \<Rightarrow> string" where
  "isoformat d = zfill 4 (year d) @ ''-'' @ zfill 2 (month d) @ ''-'' @ zfill 2 (day d)"

section \<open>The tables\<close>

text \<open>
  The three models of the source.  A column declared \<open>db.String\<close> holds a string, the
  nullable foreign key \<open>category_id\<close> a string or \<open>None\<close>, the JSONB column a dict.
\<close>

record user =
  user_id :: nat
  username :: string
  password :: string
  role :: string

record category =
  cat_id :: string
  cat_name :: string

record item =
  item_id :: string
  name :: string
  department :: string
  issued_date :: date
  category_id :: "string option"
  dynamic_attributes :: dict

record db =
  users :: "user list"
  categories :: "category list"
  items :: "item list"

definition empty_db :: db where
  "empty_db = \<lparr>users = [], categories = [], items = []\<rparr>"

text \<open>A response is the body handed to \<open>jsonify\<close> and the HTTP status.\<close>

datatype body =
    Message string
  | Error_message string exn
  | User_message string string string
  | Dict dict
  | Exists bool
  | Not_found
  | Unhandled exn

type_synonym response = "body \<times> nat"

text \<open>
  The storage layer is PostgreSQL (the model of the items has a JSONB column).  A string
  with a NUL character cannot be sent to it: the driver raises.
\<close>

definition has_nul :: "string \<Rightarrow> bool" where
  "has_nul s = (CHR 0x00 \<in> set s)"

text \<open>
  Writing a Python value into a \<open>String\<close> column.  A \<open>str\<close> without NUL is stored as it
  is.  \<open>None\<close> is refused by a column that is not nullable.  A value of another type is
  stored as the text the storage layer converts it to (a number as its digits), or makes
  it raise: that conversion is the parameter \<open>coerce\<close> of the handlers, \<open>None\<close> where
  the storage layer raises.
\<close>

definition bind_string :: "(json \<Rightarrow> string option) \<Rightarrow> json \<Rightarrow> string option" where
  "bind_string coerce v =
     (case v of
        JStr s \<Rightarrow> if has_nul s then None else Some s
      | JNull \<Rightarrow> None
      | _ \<Rightarrow> coerce v)"

definition bind_nullable_string :: "(json \<Rightarrow> string option) \<Rightarrow> json \<Rightarrow> string option option" where
  "bind_nullable_string coerce v =
     (case v of JNull \<Rightarrow> Some None | _ \<Rightarrow> map_option Some (bind_string coerce v))"

text \<open>
  One such conversion, on which the handlers can be evaluated: an integer is stored as
  its decimal text, and this instance refuses every other value.
\<close>

function decimal :: "nat \<Rightarrow> string" where
  "decimal n =
     (if n < 10 then [char_of (48 + n)]
      else decimal (n div 10) @ [char_of (48 + n mod 10)])"
  by pat_completeness auto
termination
  by (relation "measure id") auto

declare decimal.simps [simp del]

definition number_text :: "json \<Rightarrow> string option" where
  "number_text v =
     (case v of
        JNum i \<Rightarrow> Some ((if i < 0 then ''-'' else []) @ decimal (nat \<bar>i\<bar>))
      | _ \<Rightarrow> None)"

text \<open>
  Comparing a \<open>String\<close> column with a Python value in \<open>filter_by\<close>.  \<open>None\<close> becomes
  \<open>IS NULL\<close>.  A \<open>str\<close> without NUL is compared.  For any other value the query raises:
  the driver refuses a NUL, the storage layer has no comparison of a text with a number,
  a boolean or an array.
\<close>

definition query_string :: "json \<Rightarrow> exn + string option" where
  "query_string v =
     (case v of
        JNull \<Rightarrow> Inr None
      | JStr s \<Rightarrow> if has_nul s then Inl ValueError else Inr (Some s)
      | _ \<Rightarrow> Inl StorageError)"

definition json_of_nullable :: "string option \<Rightarrow> json" where
  "json_of_nullable c = (case c of None \<Rightarrow> JNull | Some s \<Rightarrow> JStr s)"

section \<open>Serialisation\<close>

definition category_to_dict :: "category \<Rightarrow> dict" where
  "category_to_dict c = [''id'' \<mapsto> JStr (cat_id c), ''name'' \<mapsto> JStr (cat_name c)]"

text \<open>The dict that \<open>Item.to_dict\<close> starts from: the five fixed fields.\<close>

definition fixed_fields :: "item \<Rightarrow> dict" where
  "fixed_fields it =
     [''id'' \<mapsto> JStr (item_id it),
      ''name'' \<mapsto> JStr (name it),
      ''department'' \<mapsto> JStr (department it),
      ''issuedDate'' \<mapsto> JStr (isoformat (issued_date it)),
      ''categoryId'' \<mapsto> json_of_nullable (category_id it)]"

text \<open>\<open>data.update(d)\<close> is \<open>data ++ d\<close>; it runs when the stored dict is not empty.\<close>

definition to_dict :: "item \<Rightarrow> dict" where
  "to_dict it =
     (let data = fixed_fields it in
      if dynamic_attributes it \<noteq> Map.empty then data ++ dynamic_attributes it else data)"

section \<open>Authentication\<close>

text \<open>
  \<open>check_password_hash\<close> and \<open>generate_password_hash\<close> belong to the password library
  and are parameters \<open>chk\<close> and \<open>gen\<close> of the handlers.  \<open>chk h p\<close> is the outcome of the
  check of the string \<open>p\<close> against the stored text \<open>h\<close>: \<open>True\<close>, \<open>False\<close> or an
  exception.  \<open>gen p\<close> is the salted hash that this call produces for the string \<open>p\<close>.
  Both raise on a password that is not a string.

  The outcome of \<open>db.session.commit()\<close> is the parameter \<open>ok\<close>: \<open>False\<close> stands for any
  rejection by the storage layer that is not written out in the handler's model (a lost
  connection, a foreign key, a length, a value that JSONB refuses).
\<close>

definition check_password_hash_py :: "(string \<Rightarrow> string \<Rightarrow> exn + bool) \<Rightarrow> string \<Rightarrow> json \<Rightarrow> exn + bool" where
  "check_password_hash_py chk pwhash pw = (case pw of JStr p \<Rightarrow> chk pwhash p | _ \<Rightarrow> Inl TypeError)"

definition generate_password_hash_py :: "(string \<Rightarrow> string) \<Rightarrow> json \<Rightarrow> exn + string" where
  "generate_password_hash_py gen pw = (case pw of JStr p \<Rightarrow> Inr (gen p) | _ \<Rightarrow> Inl TypeError)"

text \<open>
  \<open>User.query.filter_by(username=...).first()\<close> and \<open>filter_by(role='admin')\<close>.  The
  column \<open>username\<close> is not nullable, so \<open>IS NULL\<close> finds no row.  The query may raise.
\<close>

definition user_by_username :: "db \<Rightarrow> json \<Rightarrow> exn + user option" where
  "user_by_username s uname =
     (case query_string uname of
        Inl e \<Rightarrow> Inl e
      | Inr None \<Rightarrow> Inr None
      | Inr (Some n) \<Rightarrow> Inr (find (\<lambda>u. username u = n) (users s)))"

definition first_admin :: "db \<Rightarrow> user option" where
  "first_admin s = find (\<lambda>u. role u = ''admin'') (users s)"

text \<open>The row of a user is rewritten through its primary key.\<close>

definition set_password :: "nat \<Rightarrow> string \<Rightarrow> db \<Rightarrow> db" where
  "set_password uid h s =
     s\<lparr>users := map (\<lambda>u. if user_id u = uid then u\<lparr>password := h\<rparr> else u) (users s)\<rparr>"

definition login_ok :: "user \<Rightarrow> response" where
  "login_ok u = (User_message ''Login successful'' (username u) (role u), 200)"

definition login_failed :: response where
  "login_failed = (Message ''Invalid username or password'', 401)"

definition login ::
  "(string \<Rightarrow> string \<Rightarrow> exn + bool) \<Rightarrow> (string \<Rightarrow> string) \<Rightarrow> bool \<Rightarrow> db \<Rightarrow> dict \<Rightarrow> response \<times> db" where
  "login chk gen ok s data =
     (let uname = dict_get data ''username'';
          pw = dict_get data ''password''
      in case user_by_username s uname of
           Inl e \<Rightarrow> ((Unhandled e, 500), s)
         | Inr None \<Rightarrow> (login_failed, s)
         | Inr (Some u) \<Rightarrow>
             if check_password_hash_py chk (password u) pw = Inr True then (login_ok u, s)
             else if JStr (password u) = pw then
               (let s' = (case generate_password_hash_py gen pw of
                            Inl e \<Rightarrow> s
                          | Inr h \<Rightarrow> if ok then set_password (user_id u) h s else s)
                in (login_ok u, s'))
             else (login_failed, s))"

text \<open>
  An instance of the two library functions, in the library's layout
  \<open>method$salt$digest\<close>, on which the handlers can be evaluated.
\<close>

definition toy_generate :: "string \<Rightarrow> string" where
  "toy_generate p = ''toy$salt$'' @ rev p"

definition toy_check :: "string \<Rightarrow> string \<Rightarrow> exn + bool" where
  "toy_check h p = Inr (h = toy_generate p)"

text \<open>Which of the two successful branches of \<open>login\<close> a request takes.\<close>

definition hash_branch :: "(string \<Rightarrow> string \<Rightarrow> exn + bool) \<Rightarrow> db \<Rightarrow> dict \<Rightarrow> bool" where
  "hash_branch chk s data =
     (case user_by_username s (dict_get data ''username'') of
        Inr (Some u) \<Rightarrow>
          check_password_hash_py chk (password u) (dict_get data ''password'') = Inr True
      | _ \<Rightarrow> False)"

definition plaintext_branch :: "(string \<Rightarrow> string \<Rightarrow> exn + bool) \<Rightarrow> db \<Rightarrow> dict \<Rightarrow> bool" where
  "plaintext_branch chk s data =
     (case user_by_username s (dict_get data ''username'') of
        Inr (Some u) \<Rightarrow>
          check_password_hash_py chk (password u) (dict_get data ''password'') \<noteq> Inr True
          \<and> JStr (password u) = dict_get data ''password''
      | _ \<Rightarrow> False)"

text \<open>The storage layer numbers a new user row after the largest id in the table.\<close>

definition next_user_id :: "db \<Rightarrow> nat" where
  "next_user_id s = Suc (fold max (map user_id (users s)) 0)"

definition add_user :: "string \<Rightarrow> string \<Rightarrow> string \<Rightarrow> db \<Rightarrow> db" where
  "add_user un h r s =
     s\<lparr>users := users s @ [\<lparr>user_id = next_user_id s, username = un, password = h, role = r\<rparr>]\<rparr>"

definition register :: "(string \<Rightarrow> string) \<Rightarrow> bool \<Rightarrow> db \<Rightarrow> dict \<Rightarrow> response \<times> db" where
  "register gen ok s data =
     (let uname = dict_get data ''username'';
          pw = dict_get data ''password'';
          rl = dict_get_default data ''role'' (JStr ''buyer'')
      in if \<not> truthy uname \<or> \<not> truthy pw \<or> \<not> (rl = JStr ''admin'' \<or> rl = JStr ''buyer'') then
           ((Message ''username, password and valid role (admin|buyer) are required'', 400), s)
         else
           (case user_by_username s uname of
              Inl e \<Rightarrow> ((Unhandled e, 500), s)
            | Inr (Some u) \<Rightarrow> ((Message ''Username already exists'', 409), s)
            | Inr None \<Rightarrow>
                if rl = JStr ''admin'' \<and> first_admin s \<noteq> None then
                  ((Message ''An admin account already exists'', 403), s)
                else
                  (case generate_password_hash_py gen pw of
                     Inl e \<Rightarrow> ((Error_message ''Error creating user: '' e, 500), s)
                   | Inr hashed \<Rightarrow>
                       (case (uname, rl) of
                          (JStr un, JStr r) \<Rightarrow>
                            if ok then
                              ((User_message ''User created'' un r, 201), add_user un hashed r s)
                            else ((Error_message ''Error creating user: '' StorageError, 500), s)
                        | _ \<Rightarrow> ((Error_message ''Error creating user: '' StorageError, 500), s)))))"

definition admin_exists :: "db \<Rightarrow> response" where
  "admin_exists s = (Exists (first_admin s \<noteq> None), 200)"

text \<open>
  The start of the process: a user named \<open>admin\<close> with the role \<open>admin\<close> is added when
  no user has that name.  An exception leaves the tables as they were.
\<close>

definition bootstrap :: "(string \<Rightarrow> string) \<Rightarrow> bool \<Rightarrow> db \<Rightarrow> db" where
  "bootstrap gen ok s =
     (if user_by_username s (JStr ''admin'') = Inr None then
        (if ok then add_user ''admin'' (gen ''admin'') ''admin'' s else s)
      else s)"

section \<open>Categories\<close>

definition category_by_id :: "db \<Rightarrow> string \<Rightarrow> category option" where
  "category_by_id s cid = find (\<lambda>c. cat_id c = cid) (categories s)"

text \<open>\<open>uuid.uuid4().hex\<close> is the parameter \<open>uuid_hex\<close>; the handlers keep its first 8 characters.\<close>

definition create_category ::
  "(json \<Rightarrow> string option) \<Rightarrow> bool \<Rightarrow> string \<Rightarrow> db \<Rightarrow> dict \<Rightarrow> response \<times> db" where
  "create_category coerce ok uuid_hex s data =
     (let nm = dict_get data ''name'' in
      if \<not> truthy nm then ((Message ''Category name is required'', 400), s)
      else
        (let new_id = ''cat-'' @ take 8 uuid_hex in
         case bind_string coerce nm of
           Some n \<Rightarrow>
             if ok \<and> category_by_id s new_id = None
                \<and> find (\<lambda>c. cat_name c = n) (categories s) = None
             then (let c = \<lparr>cat_id = new_id, cat_name = n\<rparr>
                   in ((Dict (category_to_dict c), 201), s\<lparr>categories := categories s @ [c]\<rparr>))
             else ((Message ''Category name already exists or internal error.'', 409), s)
         | None \<Rightarrow> ((Message ''Category name already exists or internal error.'', 409), s)))"

text \<open>
  \<open>category.items.update({'category_id': None})\<close>: every item that points at the category
  loses the reference; nothing else of the item is touched.
\<close>

definition detach :: "string \<Rightarrow> item \<Rightarrow> item" where
  "detach cid it = (if category_id it = Some cid then it\<lparr>category_id := None\<rparr> else it)"

definition category_detail :: "bool \<Rightarrow> db \<Rightarrow> string \<Rightarrow> response \<times> db" where
  "category_detail ok s cid =
     (case category_by_id s cid of
        None \<Rightarrow> ((Not_found, 404), s)
      | Some c \<Rightarrow>
          (let pending = s\<lparr>items := map (detach (cat_id c)) (items s),
                           categories := filter (\<lambda>x. cat_id x \<noteq> cat_id c) (categories s)\<rparr>
           in if ok then ((Message ''Category deleted successfully'', 204), pending)
              else ((Error_message ''Error deleting category: '' StorageError, 500), s)))"

section \<open>Items\<close>

definition core_fields :: "string list" where
  "core_fields = [''name'', ''department'', ''issuedDate'', ''categoryId'']"

text \<open>\<open>{k: v for k, v in data.items() if k not in core_fields}\<close>\<close>

definition dynamic_attrs :: "dict \<Rightarrow> dict" where
  "dynamic_attrs data = (\<lambda>k. if k \<in> set core_fields then None else data k)"

definition item_by_id :: "db \<Rightarrow> string \<Rightarrow> item option" where
  "item_by_id s iid = find (\<lambda>i. item_id i = iid) (items s)"

definition create_item ::
  "(string \<Rightarrow> exn + date) \<Rightarrow> (json \<Rightarrow> string option) \<Rightarrow> bool \<Rightarrow> string \<Rightarrow> db \<Rightarrow> dict
     \<Rightarrow> response \<times> db" where
  "create_item parse coerce ok uuid_hex s data =
     (if \<not> (truthy (dict_get data ''name'') \<and> truthy (dict_get data ''department'')
             \<and> truthy (dict_get data ''issuedDate'')) then
        ((Message ''Mandatory fields (name, department, issuedDate) are required.'', 400), s)
      else
        (let new_id = ''item-'' @ take 8 uuid_hex;
             dyn = dynamic_attrs data
         in case fromisoformat_py parse (dict_get data ''issuedDate'') of
              Inl e \<Rightarrow> ((Error_message ''Error creating item: '' e, 500), s)
            | Inr issued_date_obj \<Rightarrow>
                (case (bind_string coerce (dict_get data ''name''),
                       bind_string coerce (dict_get data ''department''),
                       bind_nullable_string coerce (dict_get data ''categoryId'')) of
                   (Some n, Some d, Some c) \<Rightarrow>
                     if ok \<and> item_by_id s new_id = None then
                       (let new_item = \<lparr>item_id = new_id, name = n, department = d,
                                         issued_date = issued_date_obj, category_id = c,
                                         dynamic_attributes = dyn\<rparr>
                        in ((Dict (to_dict new_item), 201), s\<lparr>items := items s @ [new_item]\<rparr>))
                     else ((Error_message ''Error creating item: '' StorageError, 500), s)
                 | _ \<Rightarrow> ((Error_message ''Error creating item: '' StorageError, 500), s))))"

text \<open>The row of an item is rewritten, and deleted, through its primary key.\<close>

definition replace_item :: "item \<Rightarrow> db \<Rightarrow> db" where
  "replace_item it s =
     s\<lparr>items := map (\<lambda>i. if item_id i = item_id it then it else i) (items s)\<rparr>"

text \<open>
  \<open>PUT /api/items/<item_id>\<close>.  \<open>date.fromisoformat\<close> is called outside every \<open>try\<close>: its
  exception ends the request with status 500, and the session, with the fields already
  assigned, is discarded.
\<close>

definition item_detail_put ::
  "(string \<Rightarrow> exn + date) \<Rightarrow> (json \<Rightarrow> string option) \<Rightarrow> bool \<Rightarrow> db \<Rightarrow> string \<Rightarrow> dict
     \<Rightarrow> response \<times> db" where
  "item_detail_put parse coerce ok s iid data =
     (case item_by_id s iid of
        None \<Rightarrow> ((Not_found, 404), s)
      | Some it \<Rightarrow>
          (let name' = dict_get_default data ''name'' (JStr (name it));
               department' = dict_get_default data ''department'' (JStr (department it));
               issued' = (if truthy (dict_get data ''issuedDate'')
                          then fromisoformat_py parse (dict_get data ''issuedDate'')
                          else Inr (issued_date it))
           in case issued' of
                Inl e \<Rightarrow> ((Unhandled e, 500), s)
              | Inr d \<Rightarrow>
                  (let category_id' = dict_get_default data ''categoryId''
                                        (json_of_nullable (category_id it));
                       dyn = dynamic_attrs data
                   in case (bind_string coerce name', bind_string coerce department',
                            bind_nullable_string coerce category_id') of
                        (Some n, Some dp, Some c) \<Rightarrow>
                          if ok then
                            (let it' = it\<lparr>name := n, department := dp, issued_date := d,
                                           category_id := c, dynamic_attributes := dyn\<rparr>
                             in ((Dict (to_dict it'), 200), replace_item it' s))
                          else ((Error_message ''Error updating item: '' StorageError, 500), s)
                      | _ \<Rightarrow> ((Error_message ''Error updating item: '' StorageError, 500), s))))"

definition item_detail_delete :: "bool \<Rightarrow> db \<Rightarrow> string \<Rightarrow> response \<times> db" where
  "item_detail_delete ok s iid =
     (case item_by_id s iid of
        None \<Rightarrow> ((Not_found, 404), s)
      | Some it \<Rightarrow>
          if ok then ((Message ''Item deleted successfully'', 204),
                      s\<lparr>items := filter (\<lambda>i. item_id i \<noteq> item_id it) (items s)\<rparr>)
          else ((Error_message ''Error deleting item: '' StorageError, 500), s))"

section \<open>Lemmas on the tables\<close>

lemma dict_get_absent: "data k = None \<Longrightarrow> dict_get data k = JNull"
  by (simp add: dict_get_def)

lemma user_by_username_JNull: "user_by_username s JNull = Inr None"
  by (simp add: user_by_username_def query_string_def)

lemma user_by_username_JStr:
  "\<not> has_nul n \<Longrightarrow> user_by_username s (JStr n) = Inr (find (\<lambda>u. username u = n) (users s))"
  by (simp add: user_by_username_def query_string_def)

lemma user_by_username_unknown:
  "\<not> has_nul n \<Longrightarrow> \<forall>u \<in> set (users s). username u \<noteq> n \<Longrightarrow>
   user_by_username s (JStr n) = Inr None"
  by (simp add: user_by_username_JStr find_None_iff)

lemma find_map_preserving:
  "(\<And>x. P (f x) = P x) \<Longrightarrow> find P (map f xs) = map_option f (find P xs)"
  by (induction xs) auto

lemma user_by_username_set_password:
  assumes "user_by_username s uname = Inr (Some u)"
  shows "user_by_username (set_password uid h s) uname
           = Inr (Some (if user_id u = uid then u\<lparr>password := h\<rparr> else u))"
  using assms unfolding user_by_username_def set_password_def
  by (auto simp: find_map_preserving split: sum.splits option.splits)

section \<open>Login\<close>

lemma login_not_found:
  "user_by_username s (dict_get data ''username'') = Inr None \<Longrightarrow>
   login chk gen ok s data = (login_failed, s)"
  by (simp add: login_def)

text \<open>The answer of \<open>login\<close>, whatever becomes of the tables.\<close>

lemma login_response:
  "fst (login chk gen ok s data) =
     (case user_by_username s (dict_get data ''username'') of
        Inl e \<Rightarrow> (Unhandled e, 500)
      | Inr None \<Rightarrow> login_failed
      | Inr (Some u) \<Rightarrow>
          if check_password_hash_py chk (password u) (dict_get data ''password'') = Inr True
             \<or> JStr (password u) = dict_get data ''password''
          then login_ok u else login_failed)"
  by (simp add: login_def Let_def split: sum.splits option.splits)

text \<open>
  C10, as the code has it.  A login whose payload has no \<open>username\<close> key, or \<open>null\<close> for it,
  or a string free of NUL that is the name of no stored user, is answered with status 401
  and the message \<open>Invalid username or password\<close>, and the tables are unchanged.  Every
  other 401 of \<open>login\<close>, the one for a wrong password included, is this same response, and
  no answer of \<open>login\<close> has status 400.
\<close>

theorem login_unknown_username_401:
  assumes "data ''username'' = None \<or> dict_get data ''username'' = JNull
           \<or> (\<exists>n. dict_get data ''username'' = JStr n \<and> \<not> has_nul n
                    \<and> (\<forall>u \<in> set (users s). username u \<noteq> n))"
  shows "login chk gen ok s data = ((Message ''Invalid username or password'', 401), s)
         \<and> (\<forall>ok' s' data'. snd (fst (login chk gen ok' s' data')) = 401 \<longrightarrow>
                fst (login chk gen ok' s' data') = fst (login chk gen ok s data))
         \<and> (\<forall>ok' s' data'. snd (fst (login chk gen ok' s' data')) \<noteq> 400)"
proof -
  have none: "user_by_username s (dict_get data ''username'') = Inr None"
    using assms
    by (auto simp: dict_get_absent user_by_username_JNull user_by_username_unknown)
  have here: "login chk gen ok s data = (login_failed, s)"
    by (rule login_not_found [OF none])
  have same: "fst (login chk gen ok' s' data') = login_failed"
    if "snd (fst (login chk gen ok' s' data')) = 401" for ok' s' data'
    using that unfolding login_response
    by (auto simp: login_ok_def login_failed_def split: sum.splits option.splits if_splits)
  have no400: "snd (fst (login chk gen ok' s' data')) \<noteq> 400" for ok' s' data'
    unfolding login_response
    by (auto simp: login_ok_def login_failed_def split: sum.splits option.splits)
  show ?thesis using here same no400 by (simp add: login_failed_def)
qed

theorem login_unknown_username_401_witness:
  "[''password'' \<mapsto> JStr ''pw''] ''username'' = None
   \<and> login toy_check toy_generate True
       \<lparr>users = [\<lparr>user_id = 1, username = ''alice'', password = toy_generate ''pw'', role = ''buyer''\<rparr>],
        categories = [], items = []\<rparr>
       [''password'' \<mapsto> JStr ''pw'']
     = ((Message ''Invalid username or password'', 401),
        \<lparr>users = [\<lparr>user_id = 1, username = ''alice'', password = toy_generate ''pw'', role = ''buyer''\<rparr>],
         categories = [], items = []\<rparr>)
   \<and> \<not> has_nul ''bob''
   \<and> login toy_check toy_generate True
       \<lparr>users = [\<lparr>user_id = 1, username = ''alice'', password = toy_generate ''pw'', role = ''buyer''\<rparr>],
        categories = [], items = []\<rparr>
       [''username'' \<mapsto> JStr ''bob'', ''password'' \<mapsto> JStr ''pw'']
     = ((Message ''Invalid username or password'', 401),
        \<lparr>users = [\<lparr>user_id = 1, username = ''alice'', password = toy_generate ''pw'', role = ''buyer''\<rparr>],
         categories = [], items = []\<rparr>)
   \<and> login toy_check toy_generate True
       \<lparr>users = [\<lparr>user_id = 1, username = ''alice'', password = toy_generate ''pw'', role = ''buyer''\<rparr>],
        categories = [], items = []\<rparr>
       [''username'' \<mapsto> JNull, ''password'' \<mapsto> JStr ''pw'']
     = ((Message ''Invalid username or password'', 401),
        \<lparr>users = [\<lparr>user_id = 1, username = ''alice'', password = toy_generate ''pw'', role = ''buyer''\<rparr>],
         categories = [], items = []\<rparr>)"
proof -
  let ?s = "\<lparr>users = [\<lparr>user_id = 1, username = ''alice'', password = toy_generate ''pw'',
                          role = ''buyer''\<rparr>], categories = [], items = []\<rparr>"
  let ?bob = "[''username'' \<mapsto> JStr ''bob'', ''password'' \<mapsto> JStr ''pw'']"
  have nul: "\<not> has_nul ''bob''" by (simp add: has_nul_def)
  have bob: "\<exists>n. dict_get ?bob ''username'' = JStr n \<and> \<not> has_nul n
                \<and> (\<forall>u \<in> set (users ?s). username u \<noteq> n)"
    using nul by (simp add: dict_get_def)
  have null: "dict_get [''username'' \<mapsto> JNull, ''password'' \<mapsto> JStr ''pw''] ''username'' = JNull"
    by (simp add: dict_get_def)
  show ?thesis
    using login_unknown_username_401 [of "[''password'' \<mapsto> JStr ''pw'']" ?s toy_check toy_generate True]
      login_unknown_username_401 [of ?bob ?s toy_check toy_generate True]
      login_unknown_username_401 [of "[''username'' \<mapsto> JNull, ''password'' \<mapsto> JStr ''pw'']" ?s
        toy_check toy_generate True] bob nul null
    by simp
qed

text \<open>
  C10, as the claim states it, fails.  The username \<open>123\<close> is the name of no stored user,
  yet the answer is not 401: the query raises outside every \<open>try\<close> and the request ends
  with status 500.
\<close>

theorem login_numeric_username_500:
  "login toy_check toy_generate True
     \<lparr>users = [\<lparr>user_id = 1, username = ''alice'', password = toy_generate ''pw'', role = ''buyer''\<rparr>],
      categories = [], items = []\<rparr>
     [''username'' \<mapsto> JNum 123, ''password'' \<mapsto> JStr ''pw'']
   = ((Unhandled StorageError, 500),
      \<lparr>users = [\<lparr>user_id = 1, username = ''alice'', password = toy_generate ''pw'', role = ''buyer''\<rparr>],
       categories = [], items = []\<rparr>)"
  by (simp add: login_def user_by_username_def query_string_def dict_get_def)

text \<open>
  C5, where the code departs from it.  \<open>login\<close> compares the submitted password with the
  stored credential as strings and never asks whether the stored credential is a hash.
  So a request whose password is the text of the stored credential is answered 200 with
  the user's name and role, also when that credential is a salted hash which the
  submitted text does not pass.
\<close>

theorem login_accepts_stored_credential_text:
  assumes "user_by_username s (dict_get data ''username'') = Inr (Some u)"
      and "dict_get data ''password'' = JStr (password u)"
  shows "fst (login chk gen ok s data)
           = (User_message ''Login successful'' (username u) (role u), 200)"
  using assms unfolding login_response by (simp add: login_ok_def)

theorem login_accepts_stored_credential_text_witness:
  "toy_check (toy_generate ''pw'') ''pw'' = Inr True
   \<and> toy_check (toy_generate ''pw'') (toy_generate ''pw'') = Inr False
   \<and> fst (login toy_check toy_generate True
       \<lparr>users = [\<lparr>user_id = 1, username = ''alice'', password = toy_generate ''pw'', role = ''buyer''\<rparr>],
        categories = [], items = []\<rparr>
       [''username'' \<mapsto> JStr ''alice'', ''password'' \<mapsto> JStr (toy_generate ''pw'')])
     = (User_message ''Login successful'' ''alice'' ''buyer'', 200)"
proof -
  let ?u = "\<lparr>user_id = 1, username = ''alice'', password = toy_generate ''pw'', role = ''buyer''\<rparr>"
  let ?s = "\<lparr>users = [?u], categories = [], items = []\<rparr>"
  let ?data = "[''username'' \<mapsto> JStr ''alice'', ''password'' \<mapsto> JStr (toy_generate ''pw'')]"
  have found: "user_by_username ?s (dict_get ?data ''username'') = Inr (Some ?u)"
    by (simp add: user_by_username_def query_string_def dict_get_def has_nul_def)
  have pw: "dict_get ?data ''password'' = JStr (password ?u)"
    by (simp add: dict_get_def)
  have acc: "toy_check (toy_generate ''pw'') ''pw'' = Inr True"
    by (simp add: toy_check_def)
  have rej: "toy_check (toy_generate ''pw'') (toy_generate ''pw'') = Inr False"
    by (simp add: toy_check_def toy_generate_def)
  show ?thesis
    using login_accepts_stored_credential_text [OF found pw, of toy_check toy_generate True] acc rej
    by simp
qed

lemma login_plaintext:
  assumes found: "user_by_username s (dict_get data ''username'') = Inr (Some u)"
      and pw: "dict_get data ''password'' = JStr p"
      and stored: "password u = p"
      and plain: "chk p p \<noteq> Inr True"
  shows "login chk gen ok s data =
           (login_ok u, if ok then set_password (user_id u) (gen p) s else s)"
  using assms
  by (simp add: login_def Let_def check_password_hash_py_def generate_password_hash_py_def)

lemma login_hash:
  assumes found: "user_by_username s (dict_get data ''username'') = Inr (Some u)"
      and ver: "check_password_hash_py chk (password u) (dict_get data ''password'') = Inr True"
  shows "login chk gen ok s data = (login_ok u, s)"
  using assms by (simp add: login_def Let_def)

text \<open>
  What the migration does for the password it migrates.  The stored credential is the
  plaintext \<open>p\<close> and the submitted password is \<open>p\<close>: the login succeeds, and rewrites the
  credential to the generated hash when the commit goes through.  After the rewrite the
  same request takes the hash branch, succeeds, and leaves the tables alone.
\<close>

lemma plaintext_migration:
  assumes found: "user_by_username s (dict_get data ''username'') = Inr (Some u)"
      and pw: "dict_get data ''password'' = JStr p"
      and stored: "password u = p"
      and plain: "chk p p \<noteq> Inr True"
      and lib: "chk (gen p) p = Inr True"
      and s1: "s1 = set_password (user_id u) (gen p) s"
  shows "login chk gen True s data = (login_ok u, s1)
       \<and> login chk gen False s data = (login_ok u, s)
       \<and> (\<exists>u1. user_by_username s1 (dict_get data ''username'') = Inr (Some u1)
                \<and> password u1 = gen p)
       \<and> hash_branch chk s1 data \<and> \<not> plaintext_branch chk s1 data
       \<and> login chk gen' ok' s1 data = (login_ok u, s1)"
proof -
  let ?u1 = "u\<lparr>password := gen p\<rparr>"
  have first: "login chk gen ok s data =
                 (login_ok u, if ok then set_password (user_id u) (gen p) s else s)" for ok
    by (rule login_plaintext) (fact found pw stored plain)+
  have found1: "user_by_username s1 (dict_get data ''username'') = Inr (Some ?u1)"
    unfolding s1 using user_by_username_set_password [OF found, of "user_id u" "gen p"] by simp
  have ver: "check_password_hash_py chk (password ?u1) (dict_get data ''password'') = Inr True"
    by (simp add: pw check_password_hash_py_def lib)
  have hb: "hash_branch chk s1 data"
    using ver by (simp add: hash_branch_def found1)
  have npb: "\<not> plaintext_branch chk s1 data"
    using ver by (simp add: plaintext_branch_def found1)
  have again: "login chk gen' ok' s1 data = (login_ok u, s1)"
    using login_hash [where chk = chk and gen = gen' and ok = ok', OF found1 ver]
    by (simp add: login_ok_def)
  show ?thesis
    using first [of True] first [of False] found1 hb npb again
    by (simp add: s1)
qed

text \<open>
  C6, where the code departs from it.  Whenever a login submits the text of the stored
  credential and that text does not pass the hash check against itself, as the text of a
  salted hash does not, the plaintext branch is taken: the login succeeds and, when the
  commit goes through, the stored credential is rewritten to the hash of the submitted
  text.  A credential that the migration has already turned into a hash is no exception,
  so the plaintext branch does trigger again for that user.
\<close>

theorem plaintext_branch_on_stored_text:
  assumes found: "user_by_username s (dict_get data ''username'') = Inr (Some u)"
      and pw: "dict_get data ''password'' = JStr (password u)"
      and rej: "chk (password u) (password u) \<noteq> Inr True"
  shows "plaintext_branch chk s data
       \<and> login chk gen True s data
           = (login_ok u, set_password (user_id u) (gen (password u)) s)"
proof -
  have "plaintext_branch chk s data"
    using rej by (simp add: plaintext_branch_def found pw check_password_hash_py_def)
  moreover have "login chk gen True s data
           = (login_ok u, set_password (user_id u) (gen (password u)) s)"
    using login_plaintext [where chk = chk and gen = gen and ok = True and p = "password u",
        OF found pw refl rej] by simp
  ultimately show ?thesis by simp
qed

theorem plaintext_branch_on_stored_text_witness:
  "login toy_check toy_generate True
     \<lparr>users = [\<lparr>user_id = 1, username = ''alice'', password = ''pw'', role = ''buyer''\<rparr>],
      categories = [], items = []\<rparr>
     [''username'' \<mapsto> JStr ''alice'', ''password'' \<mapsto> JStr ''pw'']
   = ((User_message ''Login successful'' ''alice'' ''buyer'', 200),
      \<lparr>users = [\<lparr>user_id = 1, username = ''alice'', password = toy_generate ''pw'', role = ''buyer''\<rparr>],
       categories = [], items = []\<rparr>)
   \<and> toy_check (toy_generate ''pw'') (toy_generate ''pw'') \<noteq> Inr True
   \<and> plaintext_branch toy_check
       \<lparr>users = [\<lparr>user_id = 1, username = ''alice'', password = toy_generate ''pw'', role = ''buyer''\<rparr>],
        categories = [], items = []\<rparr>
       [''username'' \<mapsto> JStr ''alice'', ''password'' \<mapsto> JStr (toy_generate ''pw'')]
   \<and> login toy_check toy_generate True
       \<lparr>users = [\<lparr>user_id = 1, username = ''alice'', password = toy_generate ''pw'', role = ''buyer''\<rparr>],
        categories = [], items = []\<rparr>
       [''username'' \<mapsto> JStr ''alice'', ''password'' \<mapsto> JStr (toy_generate ''pw'')]
     = ((User_message ''Login successful'' ''alice'' ''buyer'', 200),
        \<lparr>users = [\<lparr>user_id = 1, username = ''alice'',
                    password = toy_generate (toy_generate ''pw''), role = ''buyer''\<rparr>],
         categories = [], items = []\<rparr>)
   \<and> login toy_check toy_generate True
       \<lparr>users = [\<lparr>user_id = 1, username = ''alice'',
                  password = toy_generate (toy_generate ''pw''), role = ''buyer''\<rparr>],
        categories = [], items = []\<rparr>
       [''username'' \<mapsto> JStr ''alice'', ''password'' \<mapsto> JStr ''pw'']
     = ((Message ''Invalid username or password'', 401),
        \<lparr>users = [\<lparr>user_id = 1, username = ''alice'',
                    password = toy_generate (toy_generate ''pw''), role = ''buyer''\<rparr>],
         categories = [], items = []\<rparr>)"
proof -
  let ?u1 = "\<lparr>user_id = 1, username = ''alice'', password = toy_generate ''pw'', role = ''buyer''\<rparr>"
  let ?s1 = "\<lparr>users = [?u1], categories = [], items = []\<rparr>"
  let ?data = "[''username'' \<mapsto> JStr ''alice'', ''password'' \<mapsto> JStr (toy_generate ''pw'')]"
  have first: "login toy_check toy_generate True
     \<lparr>users = [\<lparr>user_id = 1, username = ''alice'', password = ''pw'', role = ''buyer''\<rparr>],
      categories = [], items = []\<rparr>
     [''username'' \<mapsto> JStr ''alice'', ''password'' \<mapsto> JStr ''pw'']
   = ((User_message ''Login successful'' ''alice'' ''buyer'', 200), ?s1)"
    by (simp add: login_def user_by_username_def query_string_def has_nul_def dict_get_def
        check_password_hash_py_def generate_password_hash_py_def toy_check_def toy_generate_def
        login_ok_def set_password_def Let_def)
  have found: "user_by_username ?s1 (dict_get ?data ''username'') = Inr (Some ?u1)"
    by (simp add: user_by_username_def query_string_def dict_get_def has_nul_def)
  have pw: "dict_get ?data ''password'' = JStr (password ?u1)"
    by (simp add: dict_get_def)
  have rej: "toy_check (password ?u1) (password ?u1) \<noteq> Inr True"
    by (simp add: toy_check_def toy_generate_def)
  have locked: "login toy_check toy_generate True
       \<lparr>users = [\<lparr>user_id = 1, username = ''alice'',
                  password = toy_generate (toy_generate ''pw''), role = ''buyer''\<rparr>],
        categories = [], items = []\<rparr>
       [''username'' \<mapsto> JStr ''alice'', ''password'' \<mapsto> JStr ''pw'']
     = ((Message ''Invalid username or password'', 401),
        \<lparr>users = [\<lparr>user_id = 1, username = ''alice'',
                    password = toy_generate (toy_generate ''pw''), role = ''buyer''\<rparr>],
         categories = [], items = []\<rparr>)"
    by (simp add: login_def user_by_username_def query_string_def has_nul_def dict_get_def
        check_password_hash_py_def toy_check_def toy_generate_def login_failed_def Let_def)
  show ?thesis
    using plaintext_branch_on_stored_text [where chk = toy_check and gen = toy_generate
        and s = ?s1 and data = ?data and u = ?u1, OF found pw rej] first rej locked
    by (simp add: login_ok_def set_password_def)
qed

section \<open>Deleting a category\<close>

lemma category_by_id_cat_id: "category_by_id s cid = Some c \<Longrightarrow> cat_id c = cid"
  by (auto simp: category_by_id_def find_Some_iff)

lemma detach_no_reference: "category_id (detach cid it) \<noteq> Some cid"
  by (simp add: detach_def)

text \<open>
  C1.  Deleting a category whose id is in the table is one transaction.  When the commit
  goes through, the answer is 204, the category row is gone, every item that pointed at
  the category has \<open>category_id = None\<close> and is otherwise the item it was, every other
  item and every user is untouched, and no item points at the deleted category.  When the
  commit fails the answer is 500 and the tables are as before: neither the detaching nor
  the deletion remains.
\<close>

theorem category_delete_atomic:
  assumes found: "category_by_id s cid = Some c"
  shows "(\<exists>s'. category_detail True s cid = ((Message ''Category deleted successfully'', 204), s')
           \<and> category_by_id s' cid = None
           \<and> categories s' = filter (\<lambda>x. cat_id x \<noteq> cid) (categories s)
           \<and> users s' = users s
           \<and> length (items s') = length (items s)
           \<and> (\<forall>i < length (items s).
                 items s' ! i = (if category_id (items s ! i) = Some cid
                                 then (items s ! i)\<lparr>category_id := None\<rparr> else items s ! i))
           \<and> (\<forall>it \<in> set (items s'). category_id it \<noteq> Some cid))
       \<and> category_detail False s cid
           = ((Error_message ''Error deleting category: '' StorageError, 500), s)"
proof -
  have cid: "cat_id c = cid" by (rule category_by_id_cat_id [OF found])
  let ?s' = "s\<lparr>items := map (detach cid) (items s),
               categories := filter (\<lambda>x. cat_id x \<noteq> cid) (categories s)\<rparr>"
  have run: "category_detail True s cid = ((Message ''Category deleted successfully'', 204), ?s')"
    by (simp add: category_detail_def found cid)
  have gone: "category_by_id ?s' cid = None"
    by (simp add: category_by_id_def find_None_iff)
  have each: "items ?s' ! i = (if category_id (items s ! i) = Some cid
                               then (items s ! i)\<lparr>category_id := None\<rparr> else items s ! i)"
    if "i < length (items s)" for i
    using that by (simp add: detach_def)
  have none: "category_id it \<noteq> Some cid" if "it \<in> set (items ?s')" for it
    using that by (auto simp: detach_no_reference)
  have fail: "category_detail False s cid
                = ((Error_message ''Error deleting category: '' StorageError, 500), s)"
    by (simp add: category_detail_def found)
  show ?thesis
    using run gone each none fail by (intro conjI exI [of _ ?s']) simp_all
qed

theorem category_delete_atomic_witness:
  "category_by_id
     \<lparr>users = [], categories = [\<lparr>cat_id = ''cat-1'', cat_name = ''Pens''\<rparr>],
      items = [\<lparr>item_id = ''item-1'', name = ''Pen'', department = ''Sales'',
                issued_date = \<lparr>year = 2024, month = 1, day = 15\<rparr>,
                category_id = Some ''cat-1'', dynamic_attributes = [''color'' \<mapsto> JStr ''blue'']\<rparr>]\<rparr>
     ''cat-1'' = Some \<lparr>cat_id = ''cat-1'', cat_name = ''Pens''\<rparr>
   \<and> category_detail True
       \<lparr>users = [], categories = [\<lparr>cat_id = ''cat-1'', cat_name = ''Pens''\<rparr>],
        items = [\<lparr>item_id = ''item-1'', name = ''Pen'', department = ''Sales'',
                  issued_date = \<lparr>year = 2024, month = 1, day = 15\<rparr>,
                  category_id = Some ''cat-1'', dynamic_attributes = [''color'' \<mapsto> JStr ''blue'']\<rparr>]\<rparr>
       ''cat-1''
     = ((Message ''Category deleted successfully'', 204),
        \<lparr>users = [], categories = [],
         items = [\<lparr>item_id = ''item-1'', name = ''Pen'', department = ''Sales'',
                   issued_date = \<lparr>year = 2024, month = 1, day = 15\<rparr>,
                   category_id = None, dynamic_attributes = [''color'' \<mapsto> JStr ''blue'']\<rparr>]\<rparr>)"
proof -
  let ?c = "\<lparr>cat_id = ''cat-1'', cat_name = ''Pens''\<rparr>"
  let ?it = "\<lparr>item_id = ''item-1'', name = ''Pen'', department = ''Sales'',
                issued_date = \<lparr>year = 2024, month = 1, day = 15\<rparr>,
                category_id = Some ''cat-1'', dynamic_attributes = [''color'' \<mapsto> JStr ''blue'']\<rparr>"
  let ?s = "\<lparr>users = [], categories = [?c], items = [?it]\<rparr>"
  have found: "category_by_id ?s ''cat-1'' = Some ?c"
    by (simp add: category_by_id_def)
  from category_delete_atomic [OF found]
  obtain s' where run: "category_detail True ?s ''cat-1''
                          = ((Message ''Category deleted successfully'', 204), s')"
    and cats: "categories s' = filter (\<lambda>x. cat_id x \<noteq> ''cat-1'') (categories ?s)"
    and us: "users s' = users ?s"
    and len: "length (items s') = length (items ?s)"
    and each: "\<forall>i < length (items ?s).
                 items s' ! i = (if category_id (items ?s ! i) = Some ''cat-1''
                                 then (items ?s ! i)\<lparr>category_id := None\<rparr> else items ?s ! i)"
    by blast
  from len obtain x where xs: "items s' = [x]"
    by (cases "items s'") auto
  from each xs have x: "x = ?it\<lparr>category_id := None\<rparr>" by simp
  have "s' = \<lparr>users = [], categories = [], items = [?it\<lparr>category_id := None\<rparr>]\<rparr>"
    using cats us xs x by (cases s') simp
  with run found show ?thesis by simp
qed

section \<open>Updating an item\<close>

lemma item_by_id_item_id: "item_by_id s iid = Some it \<Longrightarrow> item_id it = iid"
  by (auto simp: item_by_id_def find_Some_iff)

lemma find_replace:
  "find (\<lambda>i. item_id i = iid) xs = Some it \<Longrightarrow> item_id it' = iid \<Longrightarrow>
   find (\<lambda>i. item_id i = iid) (map (\<lambda>i. if item_id i = iid then it' else i) xs) = Some it'"
  by (induction xs) (auto split: if_splits)

lemma item_by_id_replace:
  assumes "item_by_id s iid = Some it" and "item_id it' = item_id it"
  shows "item_by_id (replace_item it' s) iid = Some it'"
proof -
  have iid: "item_id it' = iid" using assms by (simp add: item_by_id_item_id)
  show ?thesis
    using assms(1) iid unfolding item_by_id_def replace_item_def
    by (simp add: find_replace)
qed

lemma item_id_replace_item: "map item_id (items (replace_item it' s)) = map item_id (items s)"
  by (simp add: replace_item_def comp_def)

lemma bind_string_JStr: "bind_string coerce (JStr x) = Some n \<longleftrightarrow> \<not> has_nul x \<and> n = x"
  by (auto simp: bind_string_def)

lemma bind_nullable_string_JNull: "bind_nullable_string coerce JNull = Some c \<longleftrightarrow> c = None"
  by (auto simp: bind_nullable_string_def)

lemma bind_nullable_string_JStr:
  "bind_nullable_string coerce (JStr x) = Some c \<longleftrightarrow> \<not> has_nul x \<and> c = Some x"
  by (auto simp: bind_nullable_string_def bind_string_def)

lemma dom_dynamic_attrs: "dom (dynamic_attrs data) = dom data - set core_fields"
  by (auto simp: dynamic_attrs_def dom_def split: if_splits)

text \<open>
  When an update goes through: the item is there, the date of the payload is not truthy
  or is parsed, the three fixed fields can be written and the commit is accepted.
\<close>

lemma item_detail_put_accepted:
  assumes present: "item_by_id s iid = Some it"
      and date: "(if truthy (dict_get data ''issuedDate'')
                  then fromisoformat_py parse (dict_get data ''issuedDate'')
                  else Inr (issued_date it)) = Inr d"
      and n: "bind_string coerce (dict_get_default data ''name'' (JStr (name it))) = Some n"
      and dp: "bind_string coerce (dict_get_default data ''department'' (JStr (department it)))
                 = Some dp"
      and c: "bind_nullable_string coerce
                (dict_get_default data ''categoryId'' (json_of_nullable (category_id it))) = Some c"
      and it': "it' = it\<lparr>name := n, department := dp, issued_date := d, category_id := c,
                           dynamic_attributes := dynamic_attrs data\<rparr>"
  shows "item_detail_put parse coerce True s iid data
           = ((Dict (to_dict it'), 200), replace_item it' s)"
  using present date n dp c unfolding it'
  by (simp add: item_detail_put_def Let_def)

text \<open>An update that is not answered with 200 leaves the tables as they were.\<close>

lemma item_detail_put_failure_unchanged:
  "snd (fst (item_detail_put parse coerce ok s iid data)) = 200
   \<or> snd (item_detail_put parse coerce ok s iid data) = s"
  by (simp add: item_detail_put_def Let_def split: option.splits sum.splits)

lemma fromisoformat_extended_example:
  "fromisoformat_extended ''2024-02-01'' = Inr \<lparr>year = 2024, month = 2, day = 1\<rparr>"
  by (simp add: fromisoformat_extended_def digit_def days_in_month_def is_leap_def)

lemma fromisoformat_extended_not_a_date:
  "fromisoformat_extended ''not-a-date'' = Inl ValueError"
  by (simp add: fromisoformat_extended_def digit_def)

lemma fromisoformat_extended_no_such_day:
  "fromisoformat_extended ''2024-02-30'' = Inl ValueError"
  by (simp add: fromisoformat_extended_def digit_def days_in_month_def is_leap_def)

text \<open>
  C3, as the code has it.  The item is in the table and the update goes through: the date
  of the payload is empty or is parsed, the fixed fields can be written, the commit is
  accepted.  Then the answer is 200 and the stored dynamic attributes of the item are
  exactly the entries of the payload whose key is not one of \<open>name\<close>, \<open>department\<close>,
  \<open>issuedDate\<close>, \<open>categoryId\<close>: every such entry is stored, nothing of the former
  attributes is kept, and a payload with no other key leaves none.
\<close>

theorem update_replaces_dynamic_attributes:
  assumes present: "item_by_id s iid = Some it"
      and date: "(if truthy (dict_get data ''issuedDate'')
                  then fromisoformat_py parse (dict_get data ''issuedDate'')
                  else Inr (issued_date it)) = Inr d"
      and n: "bind_string coerce (dict_get_default data ''name'' (JStr (name it))) \<noteq> None"
      and dp: "bind_string coerce (dict_get_default data ''department'' (JStr (department it)))
                 \<noteq> None"
      and c: "bind_nullable_string coerce
                (dict_get_default data ''categoryId'' (json_of_nullable (category_id it))) \<noteq> None"
  shows "\<exists>b s' it'. item_detail_put parse coerce True s iid data = ((b, 200), s')
           \<and> item_by_id s' iid = Some it'
           \<and> dom (dynamic_attributes it') = dom data - set core_fields
           \<and> (\<forall>k v. dynamic_attributes it' k = Some v \<longleftrightarrow> k \<notin> set core_fields \<and> data k = Some v)
           \<and> (dom data \<subseteq> set core_fields \<longrightarrow> dynamic_attributes it' = Map.empty)"
proof -
  from n dp c obtain n' dp' c' where
    n': "bind_string coerce (dict_get_default data ''name'' (JStr (name it))) = Some n'" and
    dp': "bind_string coerce (dict_get_default data ''department'' (JStr (department it)))
            = Some dp'" and
    c': "bind_nullable_string coerce
           (dict_get_default data ''categoryId'' (json_of_nullable (category_id it))) = Some c'"
    by auto
  let ?it' = "it\<lparr>name := n', department := dp', issued_date := d, category_id := c',
                  dynamic_attributes := dynamic_attrs data\<rparr>"
  have run: "item_detail_put parse coerce True s iid data
               = ((Dict (to_dict ?it'), 200), replace_item ?it' s)"
    by (rule item_detail_put_accepted [OF present date n' dp' c' refl])
  have stored: "item_by_id (replace_item ?it' s) iid = Some ?it'"
    by (rule item_by_id_replace [OF present]) simp
  have keys: "dom (dynamic_attributes ?it') = dom data - set core_fields"
    by (simp add: dom_dynamic_attrs)
  have each: "dynamic_attributes ?it' k = Some v \<longleftrightarrow> k \<notin> set core_fields \<and> data k = Some v"
    for k v by (simp add: dynamic_attrs_def)
  have none: "dynamic_attributes ?it' = Map.empty" if "dom data \<subseteq> set core_fields"
    using that by (auto simp: dynamic_attrs_def fun_eq_iff)
  show ?thesis
    using run stored keys each none by blast
qed

theorem update_replaces_dynamic_attributes_witness:
  "item_by_id
     \<lparr>users = [], categories = [],
      items = [\<lparr>item_id = ''item-1'', name = ''Pen'', department = ''Sales'',
                issued_date = \<lparr>year = 2024, month = 1, day = 15\<rparr>,
                category_id = None, dynamic_attributes = [''color'' \<mapsto> JStr ''blue'']\<rparr>]\<rparr>
     ''item-1''
   = Some \<lparr>item_id = ''item-1'', name = ''Pen'', department = ''Sales'',
           issued_date = \<lparr>year = 2024, month = 1, day = 15\<rparr>,
           category_id = None, dynamic_attributes = [''color'' \<mapsto> JStr ''blue'']\<rparr>
   \<and> (\<exists>b s' it'. item_detail_put fromisoformat_extended number_text True
       \<lparr>users = [], categories = [],
        items = [\<lparr>item_id = ''item-1'', name = ''Pen'', department = ''Sales'',
                  issued_date = \<lparr>year = 2024, month = 1, day = 15\<rparr>,
                  category_id = None, dynamic_attributes = [''color'' \<mapsto> JStr ''blue'']\<rparr>]\<rparr>
       ''item-1'' [''name'' \<mapsto> JStr ''Pen Deluxe'', ''size'' \<mapsto> JStr ''L''] = ((b, 200), s')
        \<and> item_by_id s' ''item-1'' = Some it'
        \<and> dynamic_attributes it' ''size'' = Some (JStr ''L'')
        \<and> dynamic_attributes it' ''color'' = None
        \<and> dynamic_attributes it' ''name'' = None)"
proof -
  let ?it = "\<lparr>item_id = ''item-1'', name = ''Pen'', department = ''Sales'',
                issued_date = \<lparr>year = 2024, month = 1, day = 15\<rparr>,
                category_id = None, dynamic_attributes = [''color'' \<mapsto> JStr ''blue'']\<rparr>"
  let ?s = "\<lparr>users = [], categories = [], items = [?it]\<rparr>"
  let ?data = "[''name'' \<mapsto> JStr ''Pen Deluxe'', ''size'' \<mapsto> JStr ''L'']"
  have present: "item_by_id ?s ''item-1'' = Some ?it"
    by (simp add: item_by_id_def)
  have date: "(if truthy (dict_get ?data ''issuedDate'')
               then fromisoformat_py fromisoformat_extended (dict_get ?data ''issuedDate'')
               else Inr (issued_date ?it)) = Inr \<lparr>year = 2024, month = 1, day = 15\<rparr>"
    by (simp add: dict_get_def)
  have n: "bind_string number_text (dict_get_default ?data ''name'' (JStr (name ?it))) \<noteq> None"
    by (simp add: dict_get_default_def bind_string_def has_nul_def)
  have dp: "bind_string number_text
              (dict_get_default ?data ''department'' (JStr (department ?it))) \<noteq> None"
    by (simp add: dict_get_default_def bind_string_def has_nul_def)
  have c: "bind_nullable_string number_text
             (dict_get_default ?data ''categoryId'' (json_of_nullable (category_id ?it))) \<noteq> None"
    by (simp add: dict_get_default_def bind_nullable_string_def json_of_nullable_def)
  from update_replaces_dynamic_attributes [OF present date n dp c]
  obtain b s' it' where
    run: "item_detail_put fromisoformat_extended number_text True ?s ''item-1'' ?data = ((b, 200), s')"
    and stored: "item_by_id s' ''item-1'' = Some it'"
    and each: "\<forall>k v. dynamic_attributes it' k = Some v \<longleftrightarrow> k \<notin> set core_fields \<and> ?data k = Some v"
    by blast
  have size: "dynamic_attributes it' ''size'' = Some (JStr ''L'')"
    using each by (simp add: core_fields_def)
  have color: "dynamic_attributes it' ''color'' = None"
  proof (cases "dynamic_attributes it' ''color''")
    case (Some a)
    with each have "?data ''color'' = Some a" by blast
    then show ?thesis by simp
  qed simp
  have nm: "dynamic_attributes it' ''name'' = None"
  proof (cases "dynamic_attributes it' ''name''")
    case (Some a)
    with each have "''name'' \<notin> set core_fields" by blast
    then show ?thesis by (simp add: core_fields_def)
  qed simp
  show ?thesis
    using present run stored size color nm by blast
qed

text \<open>
  C3, as the claim states it, fails: it speaks of every payload.  The stored item has the
  attribute \<open>color\<close>.  The first payload has no key but an \<open>issuedDate\<close> that is no date,
  the second has only a \<open>name\<close> and meets a commit that is refused.  Neither update goes
  through, and after both the item still has its \<open>color\<close>, which is no key of the payload.
\<close>

theorem update_failure_keeps_dynamic_attributes:
  "map (\<lambda>i. dynamic_attributes i ''color'')
     (items (snd (item_detail_put fromisoformat_extended number_text True
       \<lparr>users = [], categories = [],
        items = [\<lparr>item_id = ''item-1'', name = ''Pen'', department = ''Sales'',
                  issued_date = \<lparr>year = 2024, month = 1, day = 15\<rparr>,
                  category_id = None, dynamic_attributes = [''color'' \<mapsto> JStr ''blue'']\<rparr>]\<rparr>
       ''item-1'' [''issuedDate'' \<mapsto> JStr ''not-a-date''])))
   = [Some (JStr ''blue'')]
   \<and> map (\<lambda>i. dynamic_attributes i ''color'')
     (items (snd (item_detail_put fromisoformat_extended number_text False
       \<lparr>users = [], categories = [],
        items = [\<lparr>item_id = ''item-1'', name = ''Pen'', department = ''Sales'',
                  issued_date = \<lparr>year = 2024, month = 1, day = 15\<rparr>,
                  category_id = None, dynamic_attributes = [''color'' \<mapsto> JStr ''blue'']\<rparr>]\<rparr>
       ''item-1'' [''name'' \<mapsto> JStr ''Pen Deluxe''])))
   = [Some (JStr ''blue'')]"
  by (simp add: item_detail_put_def item_by_id_def dict_get_def dict_get_default_def
      bind_string_def bind_nullable_string_def has_nul_def json_of_nullable_def Let_def
      fromisoformat_py_def fromisoformat_extended_not_a_date)

lemma number_text_example: "number_text (JNum 123) = Some ''123''"
  by code_simp

text \<open>
  C9, as the code has it.  The item is in the table and the update goes through.  Then the
  answer is 200 and the id of the item, and the ids of all rows, are as before.  Each of
  \<open>name\<close>, \<open>department\<close> and \<open>categoryId\<close> keeps its stored value when the payload has no
  such key and, when it has one, holds what the storage layer writes for the payload's
  value: a string as it is, \<open>null\<close> as an empty \<open>categoryId\<close>.  \<open>issuedDate\<close> holds the
  parsed date of the payload when the payload's value is truthy, and keeps its stored
  value otherwise, also when the key is in the payload with an empty string or \<open>null\<close>.
\<close>

theorem update_fixed_fields:
  assumes present: "item_by_id s iid = Some it"
      and date: "(if truthy (dict_get data ''issuedDate'')
                  then fromisoformat_py parse (dict_get data ''issuedDate'')
                  else Inr (issued_date it)) = Inr d"
      and n: "bind_string coerce (dict_get_default data ''name'' (JStr (name it))) \<noteq> None"
      and dp: "bind_string coerce (dict_get_default data ''department'' (JStr (department it)))
                 \<noteq> None"
      and c: "bind_nullable_string coerce
                (dict_get_default data ''categoryId'' (json_of_nullable (category_id it))) \<noteq> None"
  shows "\<exists>b s' it'. item_detail_put parse coerce True s iid data = ((b, 200), s')
           \<and> item_by_id s' iid = Some it'
           \<and> item_id it' = item_id it
           \<and> map item_id (items s') = map item_id (items s)
           \<and> (case data ''name'' of
                 None \<Rightarrow> name it' = name it
               | Some v \<Rightarrow> bind_string coerce v = Some (name it')
                           \<and> (\<forall>x. v = JStr x \<longrightarrow> name it' = x))
           \<and> (case data ''department'' of
                 None \<Rightarrow> department it' = department it
               | Some v \<Rightarrow> bind_string coerce v = Some (department it')
                           \<and> (\<forall>x. v = JStr x \<longrightarrow> department it' = x))
           \<and> (case data ''categoryId'' of
                 None \<Rightarrow> category_id it' = category_id it
               | Some v \<Rightarrow> bind_nullable_string coerce v = Some (category_id it')
                           \<and> (v = JNull \<longrightarrow> category_id it' = None)
                           \<and> (\<forall>x. v = JStr x \<longrightarrow> category_id it' = Some x))
           \<and> (if truthy (dict_get data ''issuedDate'')
               then fromisoformat_py parse (dict_get data ''issuedDate'') = Inr (issued_date it')
               else issued_date it' = issued_date it)"
proof -
  from n dp c obtain n' dp' c' where
    n': "bind_string coerce (dict_get_default data ''name'' (JStr (name it))) = Some n'" and
    dp': "bind_string coerce (dict_get_default data ''department'' (JStr (department it)))
            = Some dp'" and
    c': "bind_nullable_string coerce
           (dict_get_default data ''categoryId'' (json_of_nullable (category_id it))) = Some c'"
    by auto
  let ?it' = "it\<lparr>name := n', department := dp', issued_date := d, category_id := c',
                  dynamic_attributes := dynamic_attrs data\<rparr>"
  have run: "item_detail_put parse coerce True s iid data
               = ((Dict (to_dict ?it'), 200), replace_item ?it' s)"
    by (rule item_detail_put_accepted [OF present date n' dp' c' refl])
  have stored: "item_by_id (replace_item ?it' s) iid = Some ?it'"
    by (rule item_by_id_replace [OF present]) simp
  have ids: "map item_id (items (replace_item ?it' s)) = map item_id (items s)"
    by (rule item_id_replace_item)
  have nm: "case data ''name'' of
              None \<Rightarrow> n' = name it
            | Some v \<Rightarrow> bind_string coerce v = Some n' \<and> (\<forall>x. v = JStr x \<longrightarrow> n' = x)"
    using n' by (cases "data ''name''") (auto simp: dict_get_default_def bind_string_JStr)
  have dep: "case data ''department'' of
               None \<Rightarrow> dp' = department it
             | Some v \<Rightarrow> bind_string coerce v = Some dp' \<and> (\<forall>x. v = JStr x \<longrightarrow> dp' = x)"
    using dp' by (cases "data ''department''") (auto simp: dict_get_default_def bind_string_JStr)
  have stored_cat: "bind_nullable_string coerce (json_of_nullable x) = Some y \<Longrightarrow> y = x" for x y
    by (cases x) (auto simp: json_of_nullable_def bind_nullable_string_JNull
        bind_nullable_string_JStr)
  have cat: "case data ''categoryId'' of
               None \<Rightarrow> c' = category_id it
             | Some v \<Rightarrow> bind_nullable_string coerce v = Some c'
                         \<and> (v = JNull \<longrightarrow> c' = None) \<and> (\<forall>x. v = JStr x \<longrightarrow> c' = Some x)"
    using c'
    by (cases "data ''categoryId''")
       (auto simp: dict_get_default_def bind_nullable_string_JNull bind_nullable_string_JStr
             dest: stored_cat)
  have dt: "if truthy (dict_get data ''issuedDate'')
            then fromisoformat_py parse (dict_get data ''issuedDate'') = Inr d
            else d = issued_date it"
    using date by (simp split: if_splits)
  show ?thesis
  proof (intro exI [of _ "Dict (to_dict ?it')"] exI [of _ "replace_item ?it' s"]
      exI [of _ ?it'] conjI)
    show "item_detail_put parse coerce True s iid data
            = ((Dict (to_dict ?it'), 200), replace_item ?it' s)" by (rule run)
    show "item_by_id (replace_item ?it' s) iid = Some ?it'" by (rule stored)
    show "item_id ?it' = item_id it" by simp
    show "map item_id (items (replace_item ?it' s)) = map item_id (items s)" by (rule ids)
    show "case data ''name'' of
            None \<Rightarrow> name ?it' = name it
          | Some v \<Rightarrow> bind_string coerce v = Some (name ?it')
                      \<and> (\<forall>x. v = JStr x \<longrightarrow> name ?it' = x)"
      using nm by (simp split: option.splits)
    show "case data ''department'' of
            None \<Rightarrow> department ?it' = department it
          | Some v \<Rightarrow> bind_string coerce v = Some (department ?it')
                      \<and> (\<forall>x. v = JStr x \<longrightarrow> department ?it' = x)"
      using dep by (simp split: option.splits)
    show "case data ''categoryId'' of
            None \<Rightarrow> category_id ?it' = category_id it
          | Some v \<Rightarrow> bind_nullable_string coerce v = Some (category_id ?it')
                      \<and> (v = JNull \<longrightarrow> category_id ?it' = None)
                      \<and> (\<forall>x. v = JStr x \<longrightarrow> category_id ?it' = Some x)"
      using cat by (simp split: option.splits)
    show "if truthy (dict_get data ''issuedDate'')
          then fromisoformat_py parse (dict_get data ''issuedDate'') = Inr (issued_date ?it')
          else issued_date ?it' = issued_date it"
      using dt by simp
  qed
qed

theorem update_fixed_fields_witness:
  "item_by_id
     \<lparr>users = [], categories = [],
      items = [\<lparr>item_id = ''item-1'', name = ''Pen'', department = ''Sales'',
                issued_date = \<lparr>year = 2024, month = 1, day = 15\<rparr>,
                category_id = Some ''cat-1'', dynamic_attributes = [''color'' \<mapsto> JStr ''blue'']\<rparr>]\<rparr>
     ''item-1''
   = Some \<lparr>item_id = ''item-1'', name = ''Pen'', department = ''Sales'',
           issued_date = \<lparr>year = 2024, month = 1, day = 15\<rparr>,
           category_id = Some ''cat-1'', dynamic_attributes = [''color'' \<mapsto> JStr ''blue'']\<rparr>
   \<and> (\<exists>b s' it'. item_detail_put fromisoformat_extended number_text True
       \<lparr>users = [], categories = [],
        items = [\<lparr>item_id = ''item-1'', name = ''Pen'', department = ''Sales'',
                  issued_date = \<lparr>year = 2024, month = 1, day = 15\<rparr>,
                  category_id = Some ''cat-1'', dynamic_attributes = [''color'' \<mapsto> JStr ''blue'']\<rparr>]\<rparr>
       ''item-1''
       [''name'' \<mapsto> JStr ''Pen Deluxe'', ''issuedDate'' \<mapsto> JStr ''2024-02-01'',
        ''categoryId'' \<mapsto> JNull] = ((b, 200), s')
        \<and> item_by_id s' ''item-1'' = Some it'
        \<and> item_id it' = ''item-1'' \<and> name it' = ''Pen Deluxe'' \<and> department it' = ''Sales''
        \<and> category_id it' = None \<and> issued_date it' = \<lparr>year = 2024, month = 2, day = 1\<rparr>)
   \<and> (\<exists>b s' it'. item_detail_put fromisoformat_extended number_text True
       \<lparr>users = [], categories = [],
        items = [\<lparr>item_id = ''item-1'', name = ''Pen'', department = ''Sales'',
                  issued_date = \<lparr>year = 2024, month = 1, day = 15\<rparr>,
                  category_id = Some ''cat-1'', dynamic_attributes = [''color'' \<mapsto> JStr ''blue'']\<rparr>]\<rparr>
       ''item-1'' [''name'' \<mapsto> JNum 123] = ((b, 200), s')
        \<and> item_by_id s' ''item-1'' = Some it'
        \<and> name it' = ''123'' \<and> department it' = ''Sales''
        \<and> category_id it' = Some ''cat-1''
        \<and> issued_date it' = \<lparr>year = 2024, month = 1, day = 15\<rparr>)"
proof -
  let ?it = "\<lparr>item_id = ''item-1'', name = ''Pen'', department = ''Sales'',
                issued_date = \<lparr>year = 2024, month = 1, day = 15\<rparr>,
                category_id = Some ''cat-1'', dynamic_attributes = [''color'' \<mapsto> JStr ''blue'']\<rparr>"
  let ?s = "\<lparr>users = [], categories = [], items = [?it]\<rparr>"
  let ?data = "[''name'' \<mapsto> JStr ''Pen Deluxe'', ''issuedDate'' \<mapsto> JStr ''2024-02-01'',
                ''categoryId'' \<mapsto> JNull]"
  let ?num = "[''name'' \<mapsto> JNum 123]"
  have present: "item_by_id ?s ''item-1'' = Some ?it"
    by (simp add: item_by_id_def)
  have date: "(if truthy (dict_get ?data ''issuedDate'')
               then fromisoformat_py fromisoformat_extended (dict_get ?data ''issuedDate'')
               else Inr (issued_date ?it)) = Inr \<lparr>year = 2024, month = 2, day = 1\<rparr>"
    by (simp add: dict_get_def fromisoformat_py_def fromisoformat_extended_example)
  have n: "bind_string number_text (dict_get_default ?data ''name'' (JStr (name ?it))) \<noteq> None"
    by (simp add: dict_get_default_def bind_string_def has_nul_def)
  have dp: "bind_string number_text
              (dict_get_default ?data ''department'' (JStr (department ?it))) \<noteq> None"
    by (simp add: dict_get_default_def bind_string_def has_nul_def)
  have c: "bind_nullable_string number_text
             (dict_get_default ?data ''categoryId'' (json_of_nullable (category_id ?it))) \<noteq> None"
    by (simp add: dict_get_default_def bind_nullable_string_def)
  from update_fixed_fields [OF present date n dp c]
  obtain b s' it' where
    run: "item_detail_put fromisoformat_extended number_text True ?s ''item-1'' ?data = ((b, 200), s')"
    and stored: "item_by_id s' ''item-1'' = Some it'"
    and id: "item_id it' = item_id ?it"
    and nm: "case ?data ''name'' of None \<Rightarrow> name it' = name ?it
             | Some v \<Rightarrow> bind_string number_text v = Some (name it')
                         \<and> (\<forall>x. v = JStr x \<longrightarrow> name it' = x)"
    and dep: "case ?data ''department'' of None \<Rightarrow> department it' = department ?it
              | Some v \<Rightarrow> bind_string number_text v = Some (department it')
                          \<and> (\<forall>x. v = JStr x \<longrightarrow> department it' = x)"
    and ct: "case ?data ''categoryId'' of None \<Rightarrow> category_id it' = category_id ?it
             | Some v \<Rightarrow> bind_nullable_string number_text v = Some (category_id it')
                         \<and> (v = JNull \<longrightarrow> category_id it' = None)
                         \<and> (\<forall>x. v = JStr x \<longrightarrow> category_id it' = Some x)"
    and dt: "if truthy (dict_get ?data ''issuedDate'')
             then fromisoformat_py fromisoformat_extended (dict_get ?data ''issuedDate'')
                    = Inr (issued_date it')
             else issued_date it' = issued_date ?it"
    by blast
  have f1: "item_id it' = ''item-1''" using id by simp
  have f2: "name it' = ''Pen Deluxe''" using nm by simp
  have f3: "department it' = ''Sales''" using dep by simp
  have f4: "category_id it' = None" using ct by simp
  have f5: "issued_date it' = \<lparr>year = 2024, month = 2, day = 1\<rparr>"
    using dt by (simp add: dict_get_def fromisoformat_py_def fromisoformat_extended_example)
  have first: "\<exists>b s' it'.
        item_detail_put fromisoformat_extended number_text True ?s ''item-1'' ?data = ((b, 200), s')
        \<and> item_by_id s' ''item-1'' = Some it'
        \<and> item_id it' = ''item-1'' \<and> name it' = ''Pen Deluxe'' \<and> department it' = ''Sales''
        \<and> category_id it' = None \<and> issued_date it' = \<lparr>year = 2024, month = 2, day = 1\<rparr>"
    using run stored f1 f2 f3 f4 f5 by blast
  have date2: "(if truthy (dict_get ?num ''issuedDate'')
               then fromisoformat_py fromisoformat_extended (dict_get ?num ''issuedDate'')
               else Inr (issued_date ?it)) = Inr \<lparr>year = 2024, month = 1, day = 15\<rparr>"
    by (simp add: dict_get_def)
  have n2: "bind_string number_text (dict_get_default ?num ''name'' (JStr (name ?it))) \<noteq> None"
    by (simp add: dict_get_default_def bind_string_def number_text_example)
  have dp2: "bind_string number_text
              (dict_get_default ?num ''department'' (JStr (department ?it))) \<noteq> None"
    by (simp add: dict_get_default_def bind_string_def has_nul_def)
  have c2: "bind_nullable_string number_text
             (dict_get_default ?num ''categoryId'' (json_of_nullable (category_id ?it))) \<noteq> None"
    by (simp add: dict_get_default_def bind_nullable_string_def json_of_nullable_def
        bind_string_def has_nul_def)
  from update_fixed_fields [OF present date2 n2 dp2 c2]
  obtain b2 s2 it2 where
    run2: "item_detail_put fromisoformat_extended number_text True ?s ''item-1'' ?num = ((b2, 200), s2)"
    and stored2: "item_by_id s2 ''item-1'' = Some it2"
    and nm2: "case ?num ''name'' of None \<Rightarrow> name it2 = name ?it
             | Some v \<Rightarrow> bind_string number_text v = Some (name it2)
                         \<and> (\<forall>x. v = JStr x \<longrightarrow> name it2 = x)"
    and dep2: "case ?num ''department'' of None \<Rightarrow> department it2 = department ?it
              | Some v \<Rightarrow> bind_string number_text v = Some (department it2)
                          \<and> (\<forall>x. v = JStr x \<longrightarrow> department it2 = x)"
    and ct2: "case ?num ''categoryId'' of None \<Rightarrow> category_id it2 = category_id ?it
             | Some v \<Rightarrow> bind_nullable_string number_text v = Some (category_id it2)
                         \<and> (v = JNull \<longrightarrow> category_id it2 = None)
                         \<and> (\<forall>x. v = JStr x \<longrightarrow> category_id it2 = Some x)"
    and dt2: "if truthy (dict_get ?num ''issuedDate'')
             then fromisoformat_py fromisoformat_extended (dict_get ?num ''issuedDate'')
                    = Inr (issued_date it2)
             else issued_date it2 = issued_date ?it"
    by blast
  have g2: "name it2 = ''123''"
    using nm2 by (simp add: bind_string_def number_text_example)
  have g3: "department it2 = ''Sales''" using dep2 by simp
  have g4: "category_id it2 = Some ''cat-1''" using ct2 by simp
  have g5: "issued_date it2 = \<lparr>year = 2024, month = 1, day = 15\<rparr>"
    using dt2 by (simp add: dict_get_def)
  have second: "\<exists>b s' it'.
        item_detail_put fromisoformat_extended number_text True ?s ''item-1'' ?num = ((b, 200), s')
        \<and> item_by_id s' ''item-1'' = Some it'
        \<and> name it' = ''123'' \<and> department it' = ''Sales''
        \<and> category_id it' = Some ''cat-1''
        \<and> issued_date it' = \<lparr>year = 2024, month = 1, day = 15\<rparr>"
    using run2 stored2 g2 g3 g4 g5 by blast
  show ?thesis using present first second by blast
qed

text \<open>
  C9, as the claim states it, fails.  The payload has the key \<open>issuedDate\<close>, once with the
  empty string and once with \<open>null\<close>, and neither is a date.  Both updates succeed and the
  stored date is the one from before: a fixed field of the payload has not been written.
\<close>

theorem update_ignores_empty_issued_date:
  "snd (fst (item_detail_put fromisoformat_extended number_text True
       \<lparr>users = [], categories = [],
        items = [\<lparr>item_id = ''item-1'', name = ''Pen'', department = ''Sales'',
                  issued_date = \<lparr>year = 2024, month = 1, day = 15\<rparr>,
                  category_id = None, dynamic_attributes = Map.empty\<rparr>]\<rparr>
       ''item-1'' [''issuedDate'' \<mapsto> JStr ''''])) = 200
   \<and> map issued_date (items (snd (item_detail_put fromisoformat_extended number_text True
       \<lparr>users = [], categories = [],
        items = [\<lparr>item_id = ''item-1'', name = ''Pen'', department = ''Sales'',
                  issued_date = \<lparr>year = 2024, month = 1, day = 15\<rparr>,
                  category_id = None, dynamic_attributes = Map.empty\<rparr>]\<rparr>
       ''item-1'' [''issuedDate'' \<mapsto> JStr ''''])))
     = [\<lparr>year = 2024, month = 1, day = 15\<rparr>]
   \<and> snd (fst (item_detail_put fromisoformat_extended number_text True
       \<lparr>users = [], categories = [],
        items = [\<lparr>item_id = ''item-1'', name = ''Pen'', department = ''Sales'',
                  issued_date = \<lparr>year = 2024, month = 1, day = 15\<rparr>,
                  category_id = None, dynamic_attributes = Map.empty\<rparr>]\<rparr>
       ''item-1'' [''issuedDate'' \<mapsto> JNull])) = 200
   \<and> map issued_date (items (snd (item_detail_put fromisoformat_extended number_text True
       \<lparr>users = [], categories = [],
        items = [\<lparr>item_id = ''item-1'', name = ''Pen'', department = ''Sales'',
                  issued_date = \<lparr>year = 2024, month = 1, day = 15\<rparr>,
                  category_id = None, dynamic_attributes = Map.empty\<rparr>]\<rparr>
       ''item-1'' [''issuedDate'' \<mapsto> JNull])))
     = [\<lparr>year = 2024, month = 1, day = 15\<rparr>]"
  by (simp add: item_detail_put_def item_by_id_def dict_get_def dict_get_default_def
      bind_string_def bind_nullable_string_def has_nul_def json_of_nullable_def Let_def
      replace_item_def)

text \<open>
  C8, as the code has it.  The item is in the table.  When the payload's \<open>issuedDate\<close> is
  truthy and \<open>date.fromisoformat\<close> raises on it, the update does not succeed and the
  tables, the item included, are as before.  A value that is not truthy (the empty
  string, \<open>null\<close>) is never parsed: the outcome of the update is the same whatever the
  parser would say, and no exception of the parser ends the request.
\<close>

theorem update_bad_date_leaves_item:
  assumes present: "item_by_id s iid = Some it"
  shows "(truthy (dict_get data ''issuedDate'')
          \<and> fromisoformat_py parse (dict_get data ''issuedDate'') = Inl e \<longrightarrow>
            snd (item_detail_put parse coerce ok s iid data) = s
            \<and> snd (fst (item_detail_put parse coerce ok s iid data)) \<noteq> 200)
       \<and> (\<not> truthy (dict_get data ''issuedDate'') \<longrightarrow>
            item_detail_put parse coerce ok s iid data = item_detail_put parse' coerce ok s iid data
            \<and> fst (fst (item_detail_put parse coerce ok s iid data)) \<noteq> Unhandled e)"
proof (intro conjI impI)
  assume bad: "truthy (dict_get data ''issuedDate'')
          \<and> fromisoformat_py parse (dict_get data ''issuedDate'') = Inl e"
  then have "item_detail_put parse coerce ok s iid data = ((Unhandled e, 500), s)"
    using present by (simp add: item_detail_put_def)
  then show "snd (item_detail_put parse coerce ok s iid data) = s"
    and "snd (fst (item_detail_put parse coerce ok s iid data)) \<noteq> 200"
    by simp_all
next
  assume falsy: "\<not> truthy (dict_get data ''issuedDate'')"
  then show "item_detail_put parse coerce ok s iid data = item_detail_put parse' coerce ok s iid data"
    using present by (simp add: item_detail_put_def)
  show "fst (fst (item_detail_put parse coerce ok s iid data)) \<noteq> Unhandled e"
    using present falsy
    by (simp add: item_detail_put_def Let_def split: option.splits)
qed

theorem update_bad_date_leaves_item_witness:
  "item_by_id
     \<lparr>users = [], categories = [],
      items = [\<lparr>item_id = ''item-1'', name = ''Pen'', department = ''Sales'',
                issued_date = \<lparr>year = 2024, month = 1, day = 15\<rparr>,
                category_id = None, dynamic_attributes = [''color'' \<mapsto> JStr ''blue'']\<rparr>]\<rparr>
     ''item-1''
   = Some \<lparr>item_id = ''item-1'', name = ''Pen'', department = ''Sales'',
           issued_date = \<lparr>year = 2024, month = 1, day = 15\<rparr>,
           category_id = None, dynamic_attributes = [''color'' \<mapsto> JStr ''blue'']\<rparr>
   \<and> truthy (dict_get [''issuedDate'' \<mapsto> JStr ''2024-02-30'', ''color'' \<mapsto> JStr ''red''] ''issuedDate'')
   \<and> fromisoformat_py fromisoformat_extended
        (dict_get [''issuedDate'' \<mapsto> JStr ''2024-02-30'', ''color'' \<mapsto> JStr ''red''] ''issuedDate'')
      = Inl ValueError
   \<and> snd (item_detail_put fromisoformat_extended number_text True
       \<lparr>users = [], categories = [],
        items = [\<lparr>item_id = ''item-1'', name = ''Pen'', department = ''Sales'',
                  issued_date = \<lparr>year = 2024, month = 1, day = 15\<rparr>,
                  category_id = None, dynamic_attributes = [''color'' \<mapsto> JStr ''blue'']\<rparr>]\<rparr>
       ''item-1'' [''issuedDate'' \<mapsto> JStr ''2024-02-30'', ''color'' \<mapsto> JStr ''red''])
     = \<lparr>users = [], categories = [],
        items = [\<lparr>item_id = ''item-1'', name = ''Pen'', department = ''Sales'',
                  issued_date = \<lparr>year = 2024, month = 1, day = 15\<rparr>,
                  category_id = None, dynamic_attributes = [''color'' \<mapsto> JStr ''blue'']\<rparr>]\<rparr>
   \<and> snd (fst (item_detail_put fromisoformat_extended number_text True
       \<lparr>users = [], categories = [],
        items = [\<lparr>item_id = ''item-1'', name = ''Pen'', department = ''Sales'',
                  issued_date = \<lparr>year = 2024, month = 1, day = 15\<rparr>,
                  category_id = None, dynamic_attributes = [''color'' \<mapsto> JStr ''blue'']\<rparr>]\<rparr>
       ''item-1'' [''issuedDate'' \<mapsto> JStr ''2024-02-30'', ''color'' \<mapsto> JStr ''red''])) \<noteq> 200
   \<and> \<not> truthy (dict_get [''issuedDate'' \<mapsto> JStr ''''] ''issuedDate'')
   \<and> item_detail_put fromisoformat_extended number_text True
       \<lparr>users = [], categories = [],
        items = [\<lparr>item_id = ''item-1'', name = ''Pen'', department = ''Sales'',
                  issued_date = \<lparr>year = 2024, month = 1, day = 15\<rparr>,
                  category_id = None, dynamic_attributes = [''color'' \<mapsto> JStr ''blue'']\<rparr>]\<rparr>
       ''item-1'' [''issuedDate'' \<mapsto> JStr '''']
     = item_detail_put (\<lambda>x. Inl ValueError) number_text True
       \<lparr>users = [], categories = [],
        items = [\<lparr>item_id = ''item-1'', name = ''Pen'', department = ''Sales'',
                  issued_date = \<lparr>year = 2024, month = 1, day = 15\<rparr>,
                  category_id = None, dynamic_attributes = [''color'' \<mapsto> JStr ''blue'']\<rparr>]\<rparr>
       ''item-1'' [''issuedDate'' \<mapsto> JStr '''']
   \<and> fst (fst (item_detail_put fromisoformat_extended number_text True
       \<lparr>users = [], categories = [],
        items = [\<lparr>item_id = ''item-1'', name = ''Pen'', department = ''Sales'',
                  issued_date = \<lparr>year = 2024, month = 1, day = 15\<rparr>,
                  category_id = None, dynamic_attributes = [''color'' \<mapsto> JStr ''blue'']\<rparr>]\<rparr>
       ''item-1'' [''issuedDate'' \<mapsto> JStr ''''])) \<noteq> Unhandled ValueError"
proof -
  let ?it = "\<lparr>item_id = ''item-1'', name = ''Pen'', department = ''Sales'',
                issued_date = \<lparr>year = 2024, month = 1, day = 15\<rparr>,
                category_id = None, dynamic_attributes = [''color'' \<mapsto> JStr ''blue'']\<rparr>"
  let ?s = "\<lparr>users = [], categories = [], items = [?it]\<rparr>"
  let ?data = "[''issuedDate'' \<mapsto> JStr ''2024-02-30'', ''color'' \<mapsto> JStr ''red'']"
  have present: "item_by_id ?s ''item-1'' = Some ?it"
    by (simp add: item_by_id_def)
  have t: "truthy (dict_get ?data ''issuedDate'')"
    by (simp add: dict_get_def)
  have bad: "fromisoformat_py fromisoformat_extended (dict_get ?data ''issuedDate'') = Inl ValueError"
    by (simp add: dict_get_def fromisoformat_py_def fromisoformat_extended_no_such_day)
  have f: "\<not> truthy (dict_get [''issuedDate'' \<mapsto> JStr ''''] ''issuedDate'')"
    by (simp add: dict_get_def)
  note raised = update_bad_date_leaves_item [OF present, of ?data fromisoformat_extended ValueError
        number_text True, THEN conjunct1, rule_format, OF conjI [OF t bad]]
  note ignored = update_bad_date_leaves_item [OF present, of "[''issuedDate'' \<mapsto> JStr '''']"
        fromisoformat_extended ValueError number_text True "\<lambda>x. Inl ValueError",
        THEN conjunct2, rule_format, OF f]
  show ?thesis
    by (intro conjI present t bad f raised [THEN conjunct1] raised [THEN conjunct2]
        ignored [THEN conjunct1] ignored [THEN conjunct2])
qed

text \<open>
  C8, as the claim states it, fails.  The empty string is no date, and the update whose
  \<open>issuedDate\<close> is the empty string does not fail: it is answered 200.  And the update
  whose \<open>issuedDate\<close> is \<open>not-a-date\<close> is answered with status 500, not with a validation
  error of status 400.
\<close>

theorem update_bad_date_is_not_400:
  "fromisoformat_py fromisoformat_extended (JStr '''') = Inl ValueError
   \<and> snd (fst (item_detail_put fromisoformat_extended number_text True
       \<lparr>users = [], categories = [],
        items = [\<lparr>item_id = ''item-1'', name = ''Pen'', department = ''Sales'',
                  issued_date = \<lparr>year = 2024, month = 1, day = 15\<rparr>,
                  category_id = None, dynamic_attributes = Map.empty\<rparr>]\<rparr>
       ''item-1'' [''issuedDate'' \<mapsto> JStr ''''])) = 200
   \<and> snd (fst (item_detail_put fromisoformat_extended number_text True
       \<lparr>users = [], categories = [],
        items = [\<lparr>item_id = ''item-1'', name = ''Pen'', department = ''Sales'',
                  issued_date = \<lparr>year = 2024, month = 1, day = 15\<rparr>,
                  category_id = None, dynamic_attributes = Map.empty\<rparr>]\<rparr>
       ''item-1'' [''issuedDate'' \<mapsto> JStr ''not-a-date''])) = 500"
  by (simp add: item_detail_put_def item_by_id_def dict_get_def dict_get_default_def
      bind_string_def bind_nullable_string_def has_nul_def json_of_nullable_def Let_def
      fromisoformat_py_def fromisoformat_extended_not_a_date fromisoformat_extended_def)

section \<open>Creating an item\<close>

text \<open>A creation that is not answered with 201 stores nothing.\<close>

lemma create_item_failure_unchanged:
  "snd (fst (create_item parse coerce ok uuid_hex s data)) = 201
   \<or> snd (create_item parse coerce ok uuid_hex s data) = s"
  by (simp add: create_item_def Let_def split: option.splits sum.splits)

text \<open>
  C7, as the code has it.  A payload in which \<open>name\<close>, \<open>department\<close> or \<open>issuedDate\<close> is
  missing (or not truthy) is answered with status 400.  A payload with the three fields
  on whose \<open>issuedDate\<close> \<open>date.fromisoformat\<close> raises is answered with status 500 and the
  message of the exception.  In both cases the tables are unchanged: no item is stored.
\<close>

theorem create_item_rejects:
  "((data ''name'' = None \<or> data ''department'' = None \<or> data ''issuedDate'' = None
     \<or> \<not> truthy (dict_get data ''name'') \<or> \<not> truthy (dict_get data ''department'')
     \<or> \<not> truthy (dict_get data ''issuedDate'')) \<longrightarrow>
      create_item parse coerce ok uuid_hex s data
        = ((Message ''Mandatory fields (name, department, issuedDate) are required.'', 400), s))
   \<and> (truthy (dict_get data ''name'') \<and> truthy (dict_get data ''department'')
       \<and> truthy (dict_get data ''issuedDate'')
       \<and> fromisoformat_py parse (dict_get data ''issuedDate'') = Inl e \<longrightarrow>
      create_item parse coerce ok uuid_hex s data
        = ((Error_message ''Error creating item: '' e, 500), s))"
proof (intro conjI impI)
  assume "data ''name'' = None \<or> data ''department'' = None \<or> data ''issuedDate'' = None
     \<or> \<not> truthy (dict_get data ''name'') \<or> \<not> truthy (dict_get data ''department'')
     \<or> \<not> truthy (dict_get data ''issuedDate'')"
  then have "\<not> (truthy (dict_get data ''name'') \<and> truthy (dict_get data ''department'')
               \<and> truthy (dict_get data ''issuedDate''))"
    by (auto simp: dict_get_absent)
  then show "create_item parse coerce ok uuid_hex s data
        = ((Message ''Mandatory fields (name, department, issuedDate) are required.'', 400), s)"
    by (simp add: create_item_def)
next
  assume "truthy (dict_get data ''name'') \<and> truthy (dict_get data ''department'')
       \<and> truthy (dict_get data ''issuedDate'')
       \<and> fromisoformat_py parse (dict_get data ''issuedDate'') = Inl e"
  then show "create_item parse coerce ok uuid_hex s data
               = ((Error_message ''Error creating item: '' e, 500), s)"
    by (simp add: create_item_def)
qed

theorem create_item_rejects_witness:
  "[''name'' \<mapsto> JStr ''Pen'', ''issuedDate'' \<mapsto> JStr ''2024-01-15''] ''department'' = None
   \<and> create_item fromisoformat_extended number_text True ''0123456789abcdef0123456789abcdef''
       empty_db [''name'' \<mapsto> JStr ''Pen'', ''issuedDate'' \<mapsto> JStr ''2024-01-15'']
     = ((Message ''Mandatory fields (name, department, issuedDate) are required.'', 400), empty_db)
   \<and> fromisoformat_py fromisoformat_extended (JStr ''2024-02-30'') = Inl ValueError
   \<and> create_item fromisoformat_extended number_text True ''0123456789abcdef0123456789abcdef''
       empty_db
       [''name'' \<mapsto> JStr ''Pen'', ''department'' \<mapsto> JStr ''Sales'',
        ''issuedDate'' \<mapsto> JStr ''2024-02-30'']
     = ((Error_message ''Error creating item: '' ValueError, 500), empty_db)"
proof -
  have bad: "fromisoformat_py fromisoformat_extended (JStr ''2024-02-30'') = Inl ValueError"
    by (simp add: fromisoformat_py_def fromisoformat_extended_no_such_day)
  show ?thesis
    using create_item_rejects [where data = "[''name'' \<mapsto> JStr ''Pen'',
          ''issuedDate'' \<mapsto> JStr ''2024-01-15'']"
        and parse = fromisoformat_extended and coerce = number_text and ok = True
        and uuid_hex = "''0123456789abcdef0123456789abcdef''" and s = empty_db]
      create_item_rejects [where data = "[''name'' \<mapsto> JStr ''Pen'',
          ''department'' \<mapsto> JStr ''Sales'', ''issuedDate'' \<mapsto> JStr ''2024-02-30'']"
        and parse = fromisoformat_extended and coerce = number_text and ok = True
        and uuid_hex = "''0123456789abcdef0123456789abcdef''" and s = empty_db
        and e = ValueError] bad
    by (simp add: dict_get_def)
qed

text \<open>
  C7, as the claim states it, fails: the three mandatory fields are there and
  \<open>issuedDate\<close> is not a date; the answer has status 500, not 400.
\<close>

theorem create_item_bad_date_is_not_400:
  "create_item fromisoformat_extended number_text True ''0123456789abcdef0123456789abcdef''
     empty_db
     [''name'' \<mapsto> JStr ''Pen'', ''department'' \<mapsto> JStr ''Sales'',
      ''issuedDate'' \<mapsto> JStr ''not-a-date'']
   = ((Error_message ''Error creating item: '' ValueError, 500), empty_db)"
  by (simp add: create_item_def dict_get_def fromisoformat_py_def
      fromisoformat_extended_not_a_date)

section \<open>The serialised item\<close>

lemma to_dict_eq: "to_dict it = fixed_fields it ++ dynamic_attributes it"
  by (simp add: to_dict_def Let_def)

lemma to_dict_key:
  "to_dict it k =
     (case dynamic_attributes it k of
        Some v \<Rightarrow> Some v
      | None \<Rightarrow>
          if k = ''id'' then Some (JStr (item_id it))
          else if k = ''name'' then Some (JStr (name it))
          else if k = ''department'' then Some (JStr (department it))
          else if k = ''issuedDate'' then Some (JStr (isoformat (issued_date it)))
          else if k = ''categoryId'' then Some (json_of_nullable (category_id it))
          else None)"
  by (simp add: to_dict_eq map_add_def fixed_fields_def split: option.splits)

lemma find_append_new:
  "find P xs = None \<Longrightarrow> P y \<Longrightarrow> find P (xs @ [y]) = Some y"
  by (induction xs) (auto split: if_splits)

lemma item_by_id_append_new:
  "item_by_id s iid = None \<Longrightarrow> item_id new = iid \<Longrightarrow>
   item_by_id (s\<lparr>items := items s @ [new]\<rparr>) iid = Some new"
  by (simp add: item_by_id_def find_append_new)

text \<open>
  When a creation goes through: the three mandatory fields are truthy, the date is
  parsed, the fixed fields can be written, the generated id is new and the commit is
  accepted.
\<close>

lemma create_item_accepted:
  assumes t: "truthy (dict_get data ''name'')" "truthy (dict_get data ''department'')"
             "truthy (dict_get data ''issuedDate'')"
      and date: "fromisoformat_py parse (dict_get data ''issuedDate'') = Inr d"
      and n: "bind_string coerce (dict_get data ''name'') = Some n"
      and dp: "bind_string coerce (dict_get data ''department'') = Some dp"
      and c: "bind_nullable_string coerce (dict_get data ''categoryId'') = Some c"
      and fresh: "item_by_id s (''item-'' @ take 8 uuid_hex) = None"
      and new: "new = \<lparr>item_id = ''item-'' @ take 8 uuid_hex, name = n, department = dp,
                        issued_date = d, category_id = c,
                        dynamic_attributes = dynamic_attrs data\<rparr>"
  shows "create_item parse coerce True uuid_hex s data
           = ((Dict (to_dict new), 201), s\<lparr>items := items s @ [new]\<rparr>)"
  using t date n dp c fresh unfolding new
  by (simp add: create_item_def Let_def)

lemma isoformat_example: "isoformat \<lparr>year = 2024, month = 3, day = 15\<rparr> = ''2024-03-15''"
  by code_simp

lemma fromisoformat_extended_example2:
  "fromisoformat_extended ''2024-03-15'' = Inr \<lparr>year = 2024, month = 3, day = 15\<rparr>"
  by (simp add: fromisoformat_extended_def digit_def days_in_month_def is_leap_def)

text \<open>
  C4.  The serialised form of an item is the dict of the five fixed fields, \<open>id\<close>, \<open>name\<close>,
  \<open>department\<close>, \<open>issuedDate\<close> (the ISO text of the date) and \<open>categoryId\<close>, with the
  dynamic attributes written over it: a key of the dynamic attributes has the dynamic
  value in the output, also when it is the name of a fixed field, every other key of the
  five has the value of the stored fixed field, and there is no further key.  The stored
  fixed field is not touched by this: a creation that goes through with a payload that
  has the key \<open>id\<close> is answered 201 with the payload's \<open>id\<close> and the fixed fields as they
  are stored, while the stored row has the generated id.
\<close>

theorem to_dict_overlay:
  "to_dict it k =
     (case dynamic_attributes it k of
        Some v \<Rightarrow> Some v
      | None \<Rightarrow>
          if k = ''id'' then Some (JStr (item_id it))
          else if k = ''name'' then Some (JStr (name it))
          else if k = ''department'' then Some (JStr (department it))
          else if k = ''issuedDate'' then Some (JStr (isoformat (issued_date it)))
          else if k = ''categoryId'' then Some (json_of_nullable (category_id it))
          else None)
   \<and> (truthy (dict_get data ''name'') \<and> truthy (dict_get data ''department'')
       \<and> truthy (dict_get data ''issuedDate'')
       \<and> fromisoformat_py parse (dict_get data ''issuedDate'') = Inr d
       \<and> bind_string coerce (dict_get data ''name'') = Some n
       \<and> bind_string coerce (dict_get data ''department'') = Some dp
       \<and> bind_nullable_string coerce (dict_get data ''categoryId'') = Some c
       \<and> item_by_id s (''item-'' @ take 8 uuid_hex) = None
       \<and> data ''id'' = Some w \<longrightarrow>
        (\<exists>out s' new.
            create_item parse coerce True uuid_hex s data = ((Dict out, 201), s')
          \<and> out ''id'' = Some w
          \<and> out ''name'' = Some (JStr n)
          \<and> out ''department'' = Some (JStr dp)
          \<and> out ''issuedDate'' = Some (JStr (isoformat d))
          \<and> out ''categoryId'' = Some (json_of_nullable c)
          \<and> item_by_id s' (''item-'' @ take 8 uuid_hex) = Some new
          \<and> item_id new = ''item-'' @ take 8 uuid_hex
          \<and> name new = n \<and> department new = dp \<and> issued_date new = d \<and> category_id new = c
          \<and> dynamic_attributes new ''id'' = Some w))"
proof (intro conjI impI)
  show "to_dict it k =
     (case dynamic_attributes it k of
        Some v \<Rightarrow> Some v
      | None \<Rightarrow>
          if k = ''id'' then Some (JStr (item_id it))
          else if k = ''name'' then Some (JStr (name it))
          else if k = ''department'' then Some (JStr (department it))
          else if k = ''issuedDate'' then Some (JStr (isoformat (issued_date it)))
          else if k = ''categoryId'' then Some (json_of_nullable (category_id it))
          else None)"
    by (rule to_dict_key)
next
  assume a: "truthy (dict_get data ''name'') \<and> truthy (dict_get data ''department'')
       \<and> truthy (dict_get data ''issuedDate'')
       \<and> fromisoformat_py parse (dict_get data ''issuedDate'') = Inr d
       \<and> bind_string coerce (dict_get data ''name'') = Some n
       \<and> bind_string coerce (dict_get data ''department'') = Some dp
       \<and> bind_nullable_string coerce (dict_get data ''categoryId'') = Some c
       \<and> item_by_id s (''item-'' @ take 8 uuid_hex) = None
       \<and> data ''id'' = Some w"
  let ?new = "\<lparr>item_id = ''item-'' @ take 8 uuid_hex, name = n, department = dp,
               issued_date = d, category_id = c, dynamic_attributes = dynamic_attrs data\<rparr>"
  let ?s' = "s\<lparr>items := items s @ [?new]\<rparr>"
  have run: "create_item parse coerce True uuid_hex s data = ((Dict (to_dict ?new), 201), ?s')"
    using a by (intro create_item_accepted) simp_all
  have dyn_id: "dynamic_attrs data ''id'' = Some w"
    using a by (simp add: dynamic_attrs_def core_fields_def)
  have core: "dynamic_attrs data ''name'' = None" "dynamic_attrs data ''department'' = None"
    "dynamic_attrs data ''issuedDate'' = None" "dynamic_attrs data ''categoryId'' = None"
    by (simp_all add: dynamic_attrs_def core_fields_def)
  have stored: "item_by_id ?s' (''item-'' @ take 8 uuid_hex) = Some ?new"
    using a by (intro item_by_id_append_new) simp_all
  show "\<exists>out s' new.
            create_item parse coerce True uuid_hex s data = ((Dict out, 201), s')
          \<and> out ''id'' = Some w
          \<and> out ''name'' = Some (JStr n)
          \<and> out ''department'' = Some (JStr dp)
          \<and> out ''issuedDate'' = Some (JStr (isoformat d))
          \<and> out ''categoryId'' = Some (json_of_nullable c)
          \<and> item_by_id s' (''item-'' @ take 8 uuid_hex) = Some new
          \<and> item_id new = ''item-'' @ take 8 uuid_hex
          \<and> name new = n \<and> department new = dp \<and> issued_date new = d \<and> category_id new = c
          \<and> dynamic_attributes new ''id'' = Some w"
  proof (intro exI [of _ "to_dict ?new"] exI [of _ ?s'] exI [of _ ?new] conjI)
    show "create_item parse coerce True uuid_hex s data = ((Dict (to_dict ?new), 201), ?s')"
      by (rule run)
    show "to_dict ?new ''id'' = Some w" by (simp add: to_dict_key dyn_id)
    show "to_dict ?new ''name'' = Some (JStr n)" by (simp add: to_dict_key core)
    show "to_dict ?new ''department'' = Some (JStr dp)" by (simp add: to_dict_key core)
    show "to_dict ?new ''issuedDate'' = Some (JStr (isoformat d))" by (simp add: to_dict_key core)
    show "to_dict ?new ''categoryId'' = Some (json_of_nullable c)" by (simp add: to_dict_key core)
    show "item_by_id ?s' (''item-'' @ take 8 uuid_hex) = Some ?new" by (rule stored)
    show "dynamic_attributes ?new ''id'' = Some w" using dyn_id by simp
  qed simp_all
qed

theorem to_dict_overlay_witness:
  "map (to_dict
       \<lparr>item_id = ''item-1'', name = ''Pen'', department = ''Sales'',
        issued_date = \<lparr>year = 2024, month = 3, day = 15\<rparr>,
        category_id = Some ''cat-1'',
        dynamic_attributes = [''id'' \<mapsto> JStr ''fake'', ''color'' \<mapsto> JStr ''blue'']\<rparr>)
     [''id'', ''name'', ''department'', ''issuedDate'', ''categoryId'', ''color'', ''size'']
   = [Some (JStr ''fake''), Some (JStr ''Pen''), Some (JStr ''Sales''),
      Some (JStr ''2024-03-15''), Some (JStr ''cat-1''), Some (JStr ''blue''), None]
   \<and> item_id
       \<lparr>item_id = ''item-1'', name = ''Pen'', department = ''Sales'',
        issued_date = \<lparr>year = 2024, month = 3, day = 15\<rparr>,
        category_id = Some ''cat-1'',
        dynamic_attributes = [''id'' \<mapsto> JStr ''fake'', ''color'' \<mapsto> JStr ''blue'']\<rparr> = ''item-1''
   \<and> (\<exists>out s' new.
        create_item fromisoformat_extended number_text True ''0123456789abcdef0123456789abcdef''
          empty_db
          [''name'' \<mapsto> JStr ''Pen'', ''department'' \<mapsto> JStr ''Sales'',
           ''issuedDate'' \<mapsto> JStr ''2024-03-15'', ''id'' \<mapsto> JStr ''fake'']
        = ((Dict out, 201), s')
      \<and> map out [''id'', ''name'', ''department'', ''issuedDate'', ''categoryId'']
          = [Some (JStr ''fake''), Some (JStr ''Pen''), Some (JStr ''Sales''),
             Some (JStr ''2024-03-15''), Some JNull]
      \<and> item_by_id s' ''item-01234567'' = Some new
      \<and> item_id new = ''item-01234567'')"
proof -
  let ?it = "\<lparr>item_id = ''item-1'', name = ''Pen'', department = ''Sales'',
        issued_date = \<lparr>year = 2024, month = 3, day = 15\<rparr>,
        category_id = Some ''cat-1'',
        dynamic_attributes = [''id'' \<mapsto> JStr ''fake'', ''color'' \<mapsto> JStr ''blue'']\<rparr>"
  let ?data = "[''name'' \<mapsto> JStr ''Pen'', ''department'' \<mapsto> JStr ''Sales'',
           ''issuedDate'' \<mapsto> JStr ''2024-03-15'', ''id'' \<mapsto> JStr ''fake'']"
  let ?hex = "''0123456789abcdef0123456789abcdef''"
  have keys: "map (to_dict ?it)
     [''id'', ''name'', ''department'', ''issuedDate'', ''categoryId'', ''color'', ''size'']
   = [Some (JStr ''fake''), Some (JStr ''Pen''), Some (JStr ''Sales''),
      Some (JStr ''2024-03-15''), Some (JStr ''cat-1''), Some (JStr ''blue''), None]"
    using to_dict_overlay [THEN conjunct1, of ?it "''id''"]
      to_dict_overlay [THEN conjunct1, of ?it "''name''"]
      to_dict_overlay [THEN conjunct1, of ?it "''department''"]
      to_dict_overlay [THEN conjunct1, of ?it "''issuedDate''"]
      to_dict_overlay [THEN conjunct1, of ?it "''categoryId''"]
      to_dict_overlay [THEN conjunct1, of ?it "''color''"]
      to_dict_overlay [THEN conjunct1, of ?it "''size''"]
    by (simp add: isoformat_example json_of_nullable_def)
  have hyps: "truthy (dict_get ?data ''name'') \<and> truthy (dict_get ?data ''department'')
       \<and> truthy (dict_get ?data ''issuedDate'')
       \<and> fromisoformat_py fromisoformat_extended (dict_get ?data ''issuedDate'')
           = Inr \<lparr>year = 2024, month = 3, day = 15\<rparr>
       \<and> bind_string number_text (dict_get ?data ''name'') = Some ''Pen''
       \<and> bind_string number_text (dict_get ?data ''department'') = Some ''Sales''
       \<and> bind_nullable_string number_text (dict_get ?data ''categoryId'') = Some None
       \<and> item_by_id empty_db (''item-'' @ take 8 ?hex) = None
       \<and> ?data ''id'' = Some (JStr ''fake'')"
    by (simp add: dict_get_def fromisoformat_py_def fromisoformat_extended_example2
        bind_string_def bind_nullable_string_def has_nul_def item_by_id_def empty_db_def)
  from to_dict_overlay [THEN conjunct2, rule_format, OF hyps]
  obtain out s' new where
    run: "create_item fromisoformat_extended number_text True ?hex empty_db ?data
            = ((Dict out, 201), s')"
    and o: "out ''id'' = Some (JStr ''fake'')" "out ''name'' = Some (JStr ''Pen'')"
      "out ''department'' = Some (JStr ''Sales'')"
      "out ''issuedDate'' = Some (JStr (isoformat \<lparr>year = 2024, month = 3, day = 15\<rparr>))"
      "out ''categoryId'' = Some (json_of_nullable None)"
    and stored: "item_by_id s' (''item-'' @ take 8 ?hex) = Some new"
    and id: "item_id new = ''item-'' @ take 8 ?hex"
    by blast
  have outs: "map out [''id'', ''name'', ''department'', ''issuedDate'', ''categoryId'']
          = [Some (JStr ''fake''), Some (JStr ''Pen''), Some (JStr ''Sales''),
             Some (JStr ''2024-03-15''), Some JNull]"
    using o by (simp add: isoformat_example json_of_nullable_def)
  have stored': "item_by_id s' ''item-01234567'' = Some new" using stored by simp
  have id': "item_id new = ''item-01234567''" using id by simp
  have "\<exists>out s' new.
        create_item fromisoformat_extended number_text True ?hex empty_db ?data
        = ((Dict out, 201), s')
      \<and> map out [''id'', ''name'', ''department'', ''issuedDate'', ''categoryId'']
          = [Some (JStr ''fake''), Some (JStr ''Pen''), Some (JStr ''Sales''),
             Some (JStr ''2024-03-15''), Some JNull]
      \<and> item_by_id s' ''item-01234567'' = Some new
      \<and> item_id new = ''item-01234567''"
    by (intro exI [of _ out] exI [of _ s'] exI [of _ new] conjI run outs stored' id')
  then show ?thesis using keys by simp
qed

section \<open>At most one admin\<close>

text \<open>What \<open>register\<close> itself guarantees: a request for the role \<open>admin\<close> changes nothing
  while an admin exists, and no registration makes a second admin.\<close>

lemma register_admin_conflict:
  assumes "first_admin s \<noteq> None"
      and "dict_get_default data ''role'' (JStr ''buyer'') = JStr ''admin''"
  shows "snd (register gen ok s data) = s
       \<and> snd (fst (register gen ok s data)) \<in> {400, 409, 403, 500}"
  using assms by (simp add: register_def Let_def split: sum.splits option.splits)

lemma register_admin_conflict_valid:
  assumes "first_admin s \<noteq> None"
      and "dict_get_default data ''role'' (JStr ''buyer'') = JStr ''admin''"
      and "dict_get data ''username'' = JStr n" and "n \<noteq> []" and "\<not> has_nul n"
      and "truthy (dict_get data ''password'')"
  shows "snd (fst (register gen ok s data)) \<in> {409, 403}"
  using assms
  by (simp add: register_def Let_def user_by_username_JStr split: option.splits)

lemma register_state:
  "snd (register gen ok s data) = s
   \<or> (\<exists>un h. snd (register gen ok s data) = add_user un h ''buyer'' s)
   \<or> (first_admin s = None \<and> (\<exists>un h. snd (register gen ok s data) = add_user un h ''admin'' s))"
proof (cases "user_by_username s (dict_get data ''username'')")
  case (Inl e)
  then show ?thesis by (simp add: register_def Let_def)
next
  case (Inr found)
  show ?thesis
  proof (cases found)
    case (Some u)
    with Inr show ?thesis by (simp add: register_def Let_def)
  next
    case None
    show ?thesis
    proof (cases "generate_password_hash_py gen (dict_get data ''password'')")
      case (Inl e)
      with Inr None show ?thesis by (simp add: register_def Let_def)
    next
      case hashed: (Inr h)
      show ?thesis
      proof (cases "dict_get data ''username''")
        case (JStr un)
        let ?rl = "dict_get_default data ''role'' (JStr ''buyer'')"
        let ?pw = "dict_get data ''password''"
        consider (refused) "\<not> ok \<or> \<not> truthy ?pw \<or> un = []
              \<or> (?rl \<noteq> JStr ''admin'' \<and> ?rl \<noteq> JStr ''buyer'')
              \<or> (?rl = JStr ''admin'' \<and> first_admin s \<noteq> None)"
          | (buyer) "ok" "truthy ?pw" "un \<noteq> []" "?rl = JStr ''buyer''"
          | (admin) "ok" "truthy ?pw" "un \<noteq> []" "?rl = JStr ''admin''" "first_admin s = None"
          by blast
        then show ?thesis
        proof cases
          case refused
          then have "snd (register gen ok s data) = s"
            using Inr None hashed JStr by (auto simp: register_def Let_def)
          then show ?thesis by simp
        next
          case buyer
          then have "snd (register gen ok s data) = add_user un h ''buyer'' s"
            using Inr None hashed JStr by (simp add: register_def Let_def)
          then show ?thesis by blast
        next
          case admin
          then have "snd (register gen ok s data) = add_user un h ''admin'' s"
            using Inr None hashed JStr by (simp add: register_def Let_def)
          with admin show ?thesis by blast
        qed
      qed (use Inr None hashed in
            \<open>simp_all add: register_def Let_def user_by_username_def query_string_def\<close>)
    qed
  qed
qed

lemma register_keeps_single_admin:
  assumes "length (filter (\<lambda>u. role u = ''admin'') (users s)) \<le> 1"
  shows "length (filter (\<lambda>u. role u = ''admin'') (users (snd (register gen ok s data)))) \<le> 1"
proof -
  consider (same) "snd (register gen ok s data) = s"
    | (buyer) un h where "snd (register gen ok s data) = add_user un h ''buyer'' s"
    | (admin) un h where "first_admin s = None"
        "snd (register gen ok s data) = add_user un h ''admin'' s"
    using register_state [of gen ok s data] by blast
  then show ?thesis
  proof cases
    case same
    with assms show ?thesis by simp
  next
    case buyer
    with assms show ?thesis by (simp add: add_user_def)
  next
    case admin
    then have "filter (\<lambda>u. role u = ''admin'') (users s) = []"
      by (auto simp: first_admin_def find_None_iff filter_empty_conv)
    then show ?thesis by (simp add: admin add_user_def)
  qed
qed

lemma first_admin_in_users:
  "first_admin s = Some a \<Longrightarrow> a \<in> set (users s) \<and> role a = ''admin''"
  unfolding first_admin_def find_Some_iff by (metis nth_mem)

text \<open>
  C2, where the code departs from it.  The start of the process looks for a user named
  \<open>admin\<close>, not for a user with the role \<open>admin\<close>.  When the table holds an admin under
  another name and no user named \<open>admin\<close>, the bootstrap adds a second admin: after it
  at least two users have the role \<open>admin\<close>.  Such a table is what \<open>register\<close> leaves
  when the first admin registers under a name of their own before any bootstrap has
  added its user.
\<close>

theorem bootstrap_second_admin:
  assumes admin: "first_admin s = Some a"
      and noname: "user_by_username s (JStr ''admin'') = Inr None"
  shows "2 \<le> length (filter (\<lambda>u. role u = ''admin'') (users (bootstrap gen True s)))"
proof -
  have "a \<in> set (filter (\<lambda>u. role u = ''admin'') (users s))"
    using first_admin_in_users [OF admin] by simp
  then have "1 \<le> length (filter (\<lambda>u. role u = ''admin'') (users s))"
    by (cases "filter (\<lambda>u. role u = ''admin'') (users s)") auto
  moreover have "users (bootstrap gen True s)
      = users s @ [\<lparr>user_id = next_user_id s, username = ''admin'',
                     password = gen ''admin'', role = ''admin''\<rparr>]"
    using noname by (simp add: bootstrap_def add_user_def)
  ultimately show ?thesis by simp
qed

theorem bootstrap_second_admin_witness:
  "bootstrap toy_generate False empty_db = empty_db
   \<and> register toy_generate True empty_db
     [''username'' \<mapsto> JStr ''boss'', ''password'' \<mapsto> JStr ''pw'', ''role'' \<mapsto> JStr ''admin'']
   = ((User_message ''User created'' ''boss'' ''admin'', 201),
      \<lparr>users = [\<lparr>user_id = 1, username = ''boss'', password = toy_generate ''pw'', role = ''admin''\<rparr>],
       categories = [], items = []\<rparr>)
   \<and> first_admin
       \<lparr>users = [\<lparr>user_id = 1, username = ''boss'', password = toy_generate ''pw'', role = ''admin''\<rparr>],
        categories = [], items = []\<rparr>
     = Some \<lparr>user_id = 1, username = ''boss'', password = toy_generate ''pw'', role = ''admin''\<rparr>
   \<and> user_by_username
       \<lparr>users = [\<lparr>user_id = 1, username = ''boss'', password = toy_generate ''pw'', role = ''admin''\<rparr>],
        categories = [], items = []\<rparr> (JStr ''admin'') = Inr None
   \<and> map (\<lambda>u. (username u, role u)) (users (bootstrap toy_generate True
       \<lparr>users = [\<lparr>user_id = 1, username = ''boss'', password = toy_generate ''pw'', role = ''admin''\<rparr>],
        categories = [], items = []\<rparr>))
     = [(''boss'', ''admin''), (''admin'', ''admin'')]
   \<and> 2 \<le> length (filter (\<lambda>u. role u = ''admin'') (users (bootstrap toy_generate True
       \<lparr>users = [\<lparr>user_id = 1, username = ''boss'', password = toy_generate ''pw'', role = ''admin''\<rparr>],
        categories = [], items = []\<rparr>)))"
proof -
  let ?boss = "\<lparr>user_id = 1, username = ''boss'', password = toy_generate ''pw'', role = ''admin''\<rparr>"
  let ?s = "\<lparr>users = [?boss], categories = [], items = []\<rparr>"
  have skipped: "bootstrap toy_generate False empty_db = empty_db"
    by (simp add: bootstrap_def)
  have reg: "register toy_generate True empty_db
     [''username'' \<mapsto> JStr ''boss'', ''password'' \<mapsto> JStr ''pw'', ''role'' \<mapsto> JStr ''admin'']
   = ((User_message ''User created'' ''boss'' ''admin'', 201), ?s)"
    by (simp add: register_def empty_db_def dict_get_def dict_get_default_def
        user_by_username_def query_string_def has_nul_def first_admin_def
        generate_password_hash_py_def add_user_def next_user_id_def Let_def)
  have admin: "first_admin ?s = Some ?boss" by (simp add: first_admin_def)
  have noname: "user_by_username ?s (JStr ''admin'') = Inr None"
    by (simp add: user_by_username_def query_string_def has_nul_def)
  have rows: "map (\<lambda>u. (username u, role u)) (users (bootstrap toy_generate True ?s))
                = [(''boss'', ''admin''), (''admin'', ''admin'')]"
    by (simp add: bootstrap_def user_by_username_def query_string_def has_nul_def add_user_def)
  show ?thesis
    using bootstrap_second_admin [OF admin noname, of toy_generate] skipped reg admin noname rows
    by simp
qed

end
